theory Spec2Isabelle
  imports Complex_Main "HOL-Library.Sublist"
begin

section \<open>box-gen: a parametric box with a lid (main.py)\<close>

text \<open>
  The program reads six command-line parameters, builds two solids with a constructive
  solid geometry library (an outer box minus a translated inner box, once for the base and
  once for the lid), exports them as STL files into a temporary directory, writes a
  manifest, packs the three files into a gzip-compressed tar archive under \<open>archive/\<close>
  and moves the three files there.

  Modelling decisions, fixed here once:
  \<^item> In the mesh terms Python's \<open>float\<close> is modelled as \<open>real\<close>: a mesh records the
    expressions its extents and translations were computed from. The values these
    expressions round to are modelled separately, in double precision, for the horizontal
    dimensions of the base and of the lid's cavity.
  \<^item> The text that an f-string produces for a float (\<open>str\<close> of the float) is a parameter
    of the model, \<open>float_str\<close>.
  \<^item> A mesh is the term that built it: a box primitive with its extents and the position of
    its centre, or the boolean difference of two meshes. Whether the boolean engine
    raises on two operands is a parameter of the model, \<open>boolean_fails\<close>.
  \<^item> The file system is a map from path strings to file contents together with a set of
    directories; paths are compared as strings (POSIX separators, no links).
  \<^item> An exception is a value \<open>Inl (e, w)\<close>: the error and the world as it is when the
    exception leaves the function. It ends the run; only the \<open>with\<close> block of the scratch
    directory still does its cleanup.
  \<^item> Library functions (\<open>os.path\<close>, \<open>shutil.move\<close>, \<open>tarfile\<close>, \<open>tempfile\<close>, \<open>trimesh\<close>)
    are modelled by what they do on the calls the program makes.
\<close>

subsection \<open>Meshes (the part of trimesh the program uses)\<close>

type_synonym vec3 = "real \<times> real \<times> real"

datatype mesh =
    Box (extents: vec3) (centre: vec3)
  | Difference (minuend: mesh) (subtrahend: mesh)

text \<open>\<open>trimesh.creation.box(extents)\<close>: an axis-aligned box centred at the origin.\<close>

definition creation_box :: "vec3 \<Rightarrow> mesh" where
  "creation_box e = Box e (0, 0, 0)"

text \<open>\<open>mesh.apply_translation(v)\<close>: every vertex is moved by \<open>v\<close>.\<close>

fun apply_translation :: "vec3 \<Rightarrow> mesh \<Rightarrow> mesh" where
  "apply_translation (dx, dy, dz) (Box e (x, y, z)) = Box e (x + dx, y + dy, z + dz)"
| "apply_translation v (Difference a b) = Difference (apply_translation v a) (apply_translation v b)"

subsection \<open>Errors, file contents, the world\<close>

datatype error =
    BooleanError
  | FileNotFoundError
  | FileExistsError
  | IsADirectoryError
  | NotADirectoryError
  | ShutilError

datatype content =
    Stl mesh
  | Text string
  | TarGz "(string \<times> content) list"

record world =
  file_at :: "string \<rightharpoonup> content"
  dirs :: "string set"
  stdout :: "string list"

record backend =
  float_str :: "real \<Rightarrow> string"
  boolean_fails :: "mesh \<Rightarrow> mesh \<Rightarrow> bool"

definition bindE :: "'e + 'a \<Rightarrow> ('a \<Rightarrow> 'e + 'b) \<Rightarrow> 'e + 'b" where
  "bindE r f = (case r of Inl e \<Rightarrow> Inl e | Inr x \<Rightarrow> f x)"

text \<open>\<open>print(s)\<close> appends one line to the standard output.\<close>

definition print :: "string \<Rightarrow> world \<Rightarrow> world" where
  "print s w = w\<lparr>stdout := stdout w @ [s]\<rparr>"

text \<open>The world a call leaves, whether it returns or raises.\<close>

definition final_world :: "(error \<times> world) + world \<Rightarrow> world" where
  "final_world r = (case r of Inl (e, w) \<Rightarrow> w | Inr w \<Rightarrow> w)"

subsection \<open>f-strings\<close>

datatype piece = Lit string | Val real | Str string

fun fstring :: "backend \<Rightarrow> piece list \<Rightarrow> string" where
  "fstring be [] = []"
| "fstring be (Lit s # ps) = s @ fstring be ps"
| "fstring be (Val v # ps) = float_str be v @ fstring be ps"
| "fstring be (Str s # ps) = s @ fstring be ps"

subsection \<open>Paths (posixpath)\<close>

definition os_path_join :: "string \<Rightarrow> string \<Rightarrow> string" where
  "os_path_join a b =
     (if b \<noteq> [] \<and> hd b = CHR ''/'' then b
      else if a = [] \<or> last a = CHR ''/'' then a @ b
      else a @ ''/'' @ b)"

definition os_path_basename :: "string \<Rightarrow> string" where
  "os_path_basename p = rev (takeWhile (\<lambda>c. c \<noteq> CHR ''/'') (rev p))"

definition os_path_dirname :: "string \<Rightarrow> string" where
  "os_path_dirname p =
     (let head = rev (dropWhile (\<lambda>c. c \<noteq> CHR ''/'') (rev p))
      in if head \<noteq> [] \<and> dropWhile (\<lambda>c. c = CHR ''/'') head \<noteq> []
         then rev (dropWhile (\<lambda>c. c = CHR ''/'') (rev head))
         else head)"

definition os_path_exists :: "world \<Rightarrow> string \<Rightarrow> bool" where
  "os_path_exists w p = (file_at w p \<noteq> None \<or> p \<in> dirs w)"

subsection \<open>File operations\<close>

text \<open>
  Opening \<open>p\<close> for writing and writing \<open>c\<close>: the parent must be a directory (the empty
  parent is the working directory) and \<open>p\<close> itself must not be one.
\<close>

definition open_w :: "string \<Rightarrow> content \<Rightarrow> world \<Rightarrow> (error \<times> world) + world" where
  "open_w p c w =
     (let d = os_path_dirname p in
      if p \<in> dirs w then Inl (IsADirectoryError, w)
      else if d \<noteq> [] \<and> file_at w d \<noteq> None then Inl (NotADirectoryError, w)
      else if d \<noteq> [] \<and> d \<notin> dirs w then Inl (FileNotFoundError, w)
      else Inr (w\<lparr>file_at := (file_at w)(p \<mapsto> c)\<rparr>))"

text \<open>\<open>os.makedirs(p)\<close> for a path of one component, as the program calls it.\<close>

definition os_makedirs :: "string \<Rightarrow> world \<Rightarrow> (error \<times> world) + world" where
  "os_makedirs p w =
     (if os_path_exists w p then Inl (FileExistsError, w)
      else Inr (w\<lparr>dirs := insert p (dirs w)\<rparr>))"

definition os_rename :: "string \<Rightarrow> string \<Rightarrow> world \<Rightarrow> (error \<times> world) + world" where
  "os_rename src dst w =
     (case file_at w src of
        None \<Rightarrow> Inl (FileNotFoundError, w)
      | Some c \<Rightarrow> Inr (w\<lparr>file_at := ((file_at w)(src := None))(dst \<mapsto> c)\<rparr>))"

text \<open>
  \<open>shutil.move(src, dst)\<close>: when \<open>dst\<close> is a directory the file goes inside it, and the
  call raises \<open>shutil.Error\<close> when a file of that name is already there.
\<close>

definition shutil_move :: "string \<Rightarrow> string \<Rightarrow> world \<Rightarrow> (error \<times> world) + world" where
  "shutil_move src dst w =
     (if dst \<in> dirs w then
        (let real_dst = os_path_join dst (os_path_basename src) in
         if os_path_exists w real_dst then Inl (ShutilError, w)
         else os_rename src real_dst w)
      else os_rename src dst w)"

text \<open>
  \<open>tempfile.TemporaryDirectory()\<close>: the directory \<open>d\<close> is created on entry; on exit, normal
  or by an exception, it is removed with everything below it. The name \<open>d\<close> is the one the operating system picked,
  so it is a parameter here; a name already in use makes the model fail where the library
  would try another one.
\<close>

definition mkdtemp :: "string \<Rightarrow> world \<Rightarrow> (error \<times> world) + world" where
  "mkdtemp d w =
     (let parent = os_path_dirname d in
      if os_path_exists w d then Inl (FileExistsError, w)
      else if parent \<noteq> [] \<and> parent \<notin> dirs w then Inl (FileNotFoundError, w)
      else Inr (w\<lparr>dirs := insert d (dirs w)\<rparr>))"

definition below :: "string \<Rightarrow> string \<Rightarrow> bool" where
  "below d p = prefix (d @ ''/'') p"

definition rmtree :: "string \<Rightarrow> world \<Rightarrow> world" where
  "rmtree d w =
     w\<lparr>file_at := (\<lambda>p. if below d p then None else file_at w p),
       dirs := {q \<in> dirs w. q \<noteq> d \<and> \<not> below d q}\<rparr>"

definition with_TemporaryDirectory ::
  "string \<Rightarrow> (world \<Rightarrow> (error \<times> world) + world) \<Rightarrow> world \<Rightarrow> (error \<times> world) + world" where
  "with_TemporaryDirectory tmpdirname body w =
     bindE (mkdtemp tmpdirname w) (\<lambda>w.
     case body w of
       Inl (e, w) \<Rightarrow> Inl (e, rmtree tmpdirname w)
     | Inr w \<Rightarrow> Inr (rmtree tmpdirname w))"

subsection \<open>Boolean difference and STL export\<close>

definition difference :: "backend \<Rightarrow> mesh \<Rightarrow> mesh \<Rightarrow> world \<Rightarrow> (error \<times> world) + mesh" where
  "difference be a b w =
     (if boolean_fails be a b then Inl (BooleanError, w) else Inr (Difference a b))"

definition export :: "mesh \<Rightarrow> string \<Rightarrow> world \<Rightarrow> (error \<times> world) + world" where
  "export m p w = open_w p (Stl m) w"

subsection \<open>\<open>create_full_box_with_lid\<close>\<close>

definition create_full_box_with_lid ::
  "backend \<Rightarrow> string \<Rightarrow> real \<Rightarrow> real \<Rightarrow> real \<Rightarrow> real \<Rightarrow> real \<Rightarrow> real \<Rightarrow> world \<Rightarrow> (error \<times> world) + world" where
  "create_full_box_with_lid be tmpdirname internal_length internal_width internal_height
       wall_thickness lid_overlap lid_height w =
    (let base_filename = fstring be [Lit ''box_base_'', Val internal_length, Lit ''x'',
                            Val internal_width, Lit ''x'', Val internal_height, Lit ''.stl''];
         lid_filename = fstring be [Lit ''box_lid_'', Val internal_length, Lit ''x'',
                            Val internal_width, Lit ''x'', Val internal_height, Lit ''.stl''];
         external_length = internal_length + 2 * wall_thickness;
         external_width = internal_width + 2 * wall_thickness;
         base_height = internal_height + wall_thickness;
         base_outer = creation_box (external_length, external_width, base_height);
         base_inner = creation_box (internal_length, internal_width, internal_height);
         base_inner = apply_translation
                        (wall_thickness - 2, wall_thickness - 2, wall_thickness / 2) base_inner
     in
     bindE (difference be base_outer base_inner w) (\<lambda>box_base.
     bindE (export box_base (os_path_join tmpdirname base_filename) w) (\<lambda>w.
     let lid_external_length = external_length + 2 * lid_overlap;
         lid_external_width = external_width + 2 * lid_overlap;
         lid_total_height = lid_height;
         lid_outer = creation_box (lid_external_length, lid_external_width, lid_total_height);
         lid_inner_length = external_length + 0.15;
         lid_inner_width = external_width + 0.15;
         lid_inner_height = lid_height - (wall_thickness / 2);
         lid_inner = creation_box (lid_inner_length, lid_inner_width, lid_inner_height);
         lid_inner = apply_translation (lid_overlap - 2, lid_overlap - 2, wall_thickness / 2) lid_inner
     in
     bindE (difference be lid_outer lid_inner w) (\<lambda>box_lid.
     bindE (export box_lid (os_path_join tmpdirname lid_filename) w) (\<lambda>w.
     Inr (print (fstring be [Lit ''Exported box lid to '',
                               Str (os_path_join tmpdirname lid_filename)])
           (print (fstring be [Lit ''Exported box base to '',
                               Str (os_path_join tmpdirname base_filename)]) w)))))))"

subsection \<open>The horizontal dimensions in double precision\<close>











subsection \<open>\<open>create_tar_gz\<close>\<close>

text \<open>
  \<open>tarfile.open(name, "w:gz")\<close> creates the archive file; \<open>tar.add(file, arcname)\<close>
  reads \<open>file\<close> and appends it as the member \<open>arcname\<close> (the archive itself is
  skipped). The archive is modelled by the list of its members, in the order added.
\<close>

definition tarfile_open :: "string \<Rightarrow> world \<Rightarrow> (error \<times> world) + world" where
  "tarfile_open name w = open_w name (TarGz []) w"

definition tar_add :: "string \<Rightarrow> string \<Rightarrow> string \<Rightarrow> world \<Rightarrow> (error \<times> world) + world" where
  "tar_add name file arcname w =
     (if file = name then Inr w
      else case file_at w file of
             None \<Rightarrow> Inl (FileNotFoundError, w)
           | Some c \<Rightarrow>
               (case file_at w name of
                  Some (TarGz members) \<Rightarrow>
                    Inr (w\<lparr>file_at := (file_at w)(name \<mapsto> TarGz (members @ [(arcname, c)]))\<rparr>)
                | _ \<Rightarrow> Inl (FileNotFoundError, w)))"

fun tar_add_each :: "string \<Rightarrow> string list \<Rightarrow> world \<Rightarrow> (error \<times> world) + world" where
  "tar_add_each name [] w = Inr w"
| "tar_add_each name (file # rest) w =
     bindE (tar_add name file (os_path_basename file) w) (tar_add_each name rest)"

definition create_tar_gz :: "backend \<Rightarrow> string \<Rightarrow> string list \<Rightarrow> world \<Rightarrow> (error \<times> world) + world" where
  "create_tar_gz be output_filename files_in w =
     bindE (tarfile_open output_filename w) (\<lambda>w.
     bindE (tar_add_each output_filename files_in w) (\<lambda>w.
     Inr (print (fstring be [Lit ''Created and archived '', Str output_filename]) w)))"

subsection \<open>The controller: \<open>MyBaseController._default\<close>\<close>

record pargs =
  arg_length :: "real option"
  arg_width :: "real option"
  arg_height :: "real option"
  arg_thickness :: real
  arg_overlap :: real
  arg_lid_height :: real

fun move_each :: "string list \<Rightarrow> string \<Rightarrow> world \<Rightarrow> (error \<times> world) + world" where
  "move_each [] archive_dir w = Inr w"
| "move_each (file # rest) archive_dir w =
     bindE (shutil_move file archive_dir w) (move_each rest archive_dir)"

text \<open>The three \<open>readme.write\<close> calls, as the pieces of their f-strings.\<close>

definition readme_pieces :: "real \<Rightarrow> real \<Rightarrow> real \<Rightarrow> real \<Rightarrow> real \<Rightarrow> real \<Rightarrow> piece list" where
  "readme_pieces length' width' height' thickness overlap lid_height =
     [Lit ''Box and Lid STL files created with specified dimensions.\<newline>''] @
     [Lit ''Length: '', Val length', Lit '', Width: '', Val width',
      Lit '', Height: '', Val height', Lit ''\<newline>''] @
     [Lit ''Wall Thickness: '', Val thickness, Lit '', Lid Overlap: '', Val overlap,
      Lit '', Lid Height: '', Val lid_height, Lit ''\<newline>'']"

definition MyBaseController_default :: "backend \<Rightarrow> string \<Rightarrow> pargs \<Rightarrow> world \<Rightarrow> (error \<times> world) + world" where
  "MyBaseController_default be tmpdirname pa w =
    (if arg_length pa = None \<or> arg_width pa = None \<or> arg_height pa = None then
       Inr (print ''Please provide the internal length, width, and height of the box.'' w)
     else
       let length' = the (arg_length pa);
           width' = the (arg_width pa);
           height' = the (arg_height pa);
           thickness = arg_thickness pa;
           overlap = arg_overlap pa;
           lid_height = arg_lid_height pa
       in
       with_TemporaryDirectory tmpdirname (\<lambda>w.
         let file_basename = fstring be [Lit ''box_'', Val length', Lit ''x'', Val width',
                                         Lit ''x'', Val height']
         in
         bindE (create_full_box_with_lid be tmpdirname length' width' height'
                  thickness overlap lid_height w) (\<lambda>w.
         let file_basename = fstring be [Lit ''box_'', Val length', Lit ''x'', Val width',
                                         Lit ''x'', Val height'];
             files_to_include =
               [os_path_join tmpdirname (fstring be [Lit ''box_base_'', Val length', Lit ''x'',
                                           Val width', Lit ''x'', Val height', Lit ''.stl'']),
                os_path_join tmpdirname (fstring be [Lit ''box_lid_'', Val length', Lit ''x'',
                                           Val width', Lit ''x'', Val height', Lit ''.stl'']),
                os_path_join tmpdirname ''README.txt'']
         in
         bindE (open_w (last files_to_include)
                  (Text (fstring be (readme_pieces length' width' height'
                                       thickness overlap lid_height))) w) (\<lambda>w.
         let archive_dir = ''archive'' in
         bindE (if \<not> os_path_exists w archive_dir then os_makedirs archive_dir w else Inr w) (\<lambda>w.
         let output_filename =
               os_path_join archive_dir (fstring be [Str file_basename, Lit ''.tar.gz''])
         in
         bindE (create_tar_gz be output_filename files_to_include w) (\<lambda>w.
         move_each files_to_include archive_dir w))))) w)"

text \<open>
  The body of the \<open>with\<close> block of the controller once more, with the local names
  replaced by what they stand for; \<open>default_unfold\<close> below shows it is the same.
\<close>

definition default_body ::
  "backend \<Rightarrow> string \<Rightarrow> real \<Rightarrow> real \<Rightarrow> real \<Rightarrow> real \<Rightarrow> real \<Rightarrow> real \<Rightarrow> world
     \<Rightarrow> (error \<times> world) + world" where
  "default_body be tmp L W H T Ov LH w =
     bindE (create_full_box_with_lid be tmp L W H T Ov LH w) (\<lambda>w.
     bindE (open_w (os_path_join tmp ''README.txt'')
              (Text (fstring be (readme_pieces L W H T Ov LH))) w) (\<lambda>w.
     bindE (if \<not> os_path_exists w ''archive'' then os_makedirs ''archive'' w else Inr w) (\<lambda>w.
     bindE (create_tar_gz be
              (os_path_join ''archive''
                 (''box_'' @ float_str be L @ ''x'' @ float_str be W @ ''x'' @ float_str be H
                    @ ''.tar.gz''))
              [os_path_join tmp
                 (''box_base_'' @ float_str be L @ ''x'' @ float_str be W @ ''x'' @ float_str be H
                    @ ''.stl''),
               os_path_join tmp
                 (''box_lid_'' @ float_str be L @ ''x'' @ float_str be W @ ''x'' @ float_str be H
                    @ ''.stl''),
               os_path_join tmp ''README.txt''] w) (\<lambda>w.
     move_each
              [os_path_join tmp
                 (''box_base_'' @ float_str be L @ ''x'' @ float_str be W @ ''x'' @ float_str be H
                    @ ''.stl''),
               os_path_join tmp
                 (''box_lid_'' @ float_str be L @ ''x'' @ float_str be W @ ''x'' @ float_str be H
                    @ ''.stl''),
               os_path_join tmp ''README.txt''] ''archive'' w))))"

text \<open>
  The argument declarations of \<open>Meta.arguments\<close>: length, width and height have no
  default (an absent one is \<open>None\<close>), the other three default to 2.0, 2.0 and 5.0.
\<close>

definition parse_args ::
  "real option \<Rightarrow> real option \<Rightarrow> real option \<Rightarrow> real option \<Rightarrow> real option \<Rightarrow> real option \<Rightarrow> pargs" where
  "parse_args l w h t ov lh =
     \<lparr>arg_length = l, arg_width = w, arg_height = h,
      arg_thickness = (case t of None \<Rightarrow> 2.0 | Some v \<Rightarrow> v),
      arg_overlap = (case ov of None \<Rightarrow> 2.0 | Some v \<Rightarrow> v),
      arg_lid_height = (case lh of None \<Rightarrow> 5.0 | Some v \<Rightarrow> v)\<rparr>"

subsection \<open>Reading the results back\<close>

text \<open>The names of the two mesh files and of the archive, as the f-strings build them.\<close>

definition base_stl_name :: "backend \<Rightarrow> real \<Rightarrow> real \<Rightarrow> real \<Rightarrow> string" where
  "base_stl_name be l w h =
     ''box_base_'' @ float_str be l @ ''x'' @ float_str be w @ ''x'' @ float_str be h @ ''.stl''"

definition lid_stl_name :: "backend \<Rightarrow> real \<Rightarrow> real \<Rightarrow> real \<Rightarrow> string" where
  "lid_stl_name be l w h =
     ''box_lid_'' @ float_str be l @ ''x'' @ float_str be w @ ''x'' @ float_str be h @ ''.stl''"

definition tar_gz_name :: "backend \<Rightarrow> real \<Rightarrow> real \<Rightarrow> real \<Rightarrow> string" where
  "tar_gz_name be l w h =
     ''box_'' @ float_str be l @ ''x'' @ float_str be w @ ''x'' @ float_str be h @ ''.tar.gz''"

text \<open>
  The two solids, \<open>box_base\<close> and \<open>box_lid\<close> of the source, in closed form, and the text
  of the manifest.
\<close>

definition box_base :: "real \<Rightarrow> real \<Rightarrow> real \<Rightarrow> real \<Rightarrow> mesh" where
  "box_base L W H T =
     Difference (Box (L + 2 * T, W + 2 * T, H + T) (0, 0, 0))
                (Box (L, W, H) (T - 2, T - 2, T / 2))"

definition box_lid :: "real \<Rightarrow> real \<Rightarrow> real \<Rightarrow> real \<Rightarrow> real \<Rightarrow> real \<Rightarrow> mesh" where
  "box_lid L W H T Ov LH =
     Difference (Box (L + 2 * T + 2 * Ov, W + 2 * T + 2 * Ov, LH) (0, 0, 0))
                (Box (L + 2 * T + 0.15, W + 2 * T + 0.15, LH - T / 2) (Ov - 2, Ov - 2, T / 2))"

definition manifest_text ::
  "backend \<Rightarrow> real \<Rightarrow> real \<Rightarrow> real \<Rightarrow> real \<Rightarrow> real \<Rightarrow> real \<Rightarrow> string" where
  "manifest_text be L W H T Ov LH = fstring be (readme_pieces L W H T Ov LH)"

text \<open>The values an f-string interpolates, in order.\<close>

fun field_values :: "piece list \<Rightarrow> real list" where
  "field_values [] = []"
| "field_values (Val v # ps) = v # field_values ps"
| "field_values (Lit s # ps) = field_values ps"
| "field_values (Str s # ps) = field_values ps"

text \<open>The member of a given name in the archive at a path, if there is one.\<close>

definition archive_member :: "world \<Rightarrow> string \<Rightarrow> string \<Rightarrow> content option" where
  "archive_member w p n = (case file_at w p of Some (TarGz ms) \<Rightarrow> map_of ms n | _ \<Rightarrow> None)"

text \<open>The mesh held by an STL file of the world, if there is one at that path.\<close>

definition exported_mesh :: "world \<Rightarrow> string \<Rightarrow> mesh option" where
  "exported_mesh w p = (case file_at w p of Some (Stl m) \<Rightarrow> Some m | _ \<Rightarrow> None)"

definition horizontal :: "vec3 \<Rightarrow> real \<times> real" where
  "horizontal v = (fst v, fst (snd v))"

text \<open>
  A cavity is horizontally centred in its outer box when the two centres agree in their
  first two coordinates.
\<close>

definition horizontally_centred :: "mesh \<Rightarrow> bool" where
  "horizontally_centred m =
     (horizontal (centre (subtrahend m)) = horizontal (centre (minuend m)))"

subsection \<open>A concrete run\<close>

text \<open>
  A backend whose float formatting is Python's on the five values used below, and whose
  boolean engine never raises; a world that holds nothing but the directory \<open>/tmp\<close>,
  and the same world with the scratch directory in it.
\<close>

definition demo_float_str :: "real \<Rightarrow> string" where
  "demo_float_str r =
     (if r = 100 then ''100.0'' else if r = 80 then ''80.0'' else if r = 50 then ''50.0''
      else if r = 2 then ''2.0'' else if r = 5 then ''5.0'' else ''0.0'')"

definition demo_backend :: backend where
  "demo_backend = \<lparr>float_str = demo_float_str, boolean_fails = (\<lambda>a b. False)\<rparr>"

definition demo_world :: world where
  "demo_world = \<lparr>file_at = Map.empty, dirs = {''/tmp''}, stdout = []\<rparr>"

definition demo_tmp_world :: world where
  "demo_tmp_world = \<lparr>file_at = Map.empty, dirs = {''/tmp/tmpbox'', ''/tmp''}, stdout = []\<rparr>"

section \<open>Properties\<close>

subsection \<open>Auxiliary facts\<close>

lemma bindE_Inr: "bindE r f = Inr y \<longleftrightarrow> (\<exists>x. r = Inr x \<and> f x = Inr y)"
  by (cases r) (simp_all add: bindE_def)

lemma base_lid_paths_differ:
  "os_path_join d (base_stl_name be l w h) \<noteq> os_path_join d (lid_stl_name be l w h)"
  by (simp add: os_path_join_def base_stl_name_def lid_stl_name_def)

text \<open>What a call of \<open>create_full_box_with_lid\<close> that returns leaves behind.\<close>

lemma create_full_box_with_lid_Inr:
  assumes "create_full_box_with_lid be tmp L W H T Ov LH w = Inr w'"
  shows "w' = w\<lparr>file_at := (file_at w)
              (os_path_join tmp (base_stl_name be L W H)
                 \<mapsto> Stl (Difference (Box (L + 2 * T, W + 2 * T, H + T) (0, 0, 0))
                                      (Box (L, W, H) (T - 2, T - 2, T / 2))),
               os_path_join tmp (lid_stl_name be L W H)
                 \<mapsto> Stl (Difference (Box (L + 2 * T + 2 * Ov, W + 2 * T + 2 * Ov, LH) (0, 0, 0))
                                      (Box (L + 2 * T + 0.15, W + 2 * T + 0.15, LH - T / 2)
                                           (Ov - 2, Ov - 2, T / 2)))),
            stdout := stdout w @
              [''Exported box base to '' @ os_path_join tmp (base_stl_name be L W H),
               ''Exported box lid to '' @ os_path_join tmp (lid_stl_name be L W H)]\<rparr>"
  using assms
  by (auto simp: create_full_box_with_lid_def bindE_def difference_def export_def open_w_def
        creation_box_def print_def Let_def base_stl_name_def lid_stl_name_def
        split: if_splits sum.splits)

lemma exported_base:
  assumes "create_full_box_with_lid be tmp L W H T Ov LH w = Inr w'"
  shows "exported_mesh w' (os_path_join tmp (base_stl_name be L W H)) =
           Some (Difference (Box (L + 2 * T, W + 2 * T, H + T) (0, 0, 0))
                            (Box (L, W, H) (T - 2, T - 2, T / 2)))"
  using base_lid_paths_differ [of tmp be L W H]
  by (simp add: create_full_box_with_lid_Inr [OF assms] exported_mesh_def)

lemma exported_lid:
  assumes "create_full_box_with_lid be tmp L W H T Ov LH w = Inr w'"
  shows "exported_mesh w' (os_path_join tmp (lid_stl_name be L W H)) =
           Some (Difference (Box (L + 2 * T + 2 * Ov, W + 2 * T + 2 * Ov, LH) (0, 0, 0))
                            (Box (L + 2 * T + 0.15, W + 2 * T + 0.15, LH - T / 2)
                                 (Ov - 2, Ov - 2, T / 2)))"
  by (simp add: create_full_box_with_lid_Inr [OF assms] exported_mesh_def)

lemma demo_create:
  "\<exists>w'. create_full_box_with_lid demo_backend ''/tmp/tmpbox'' 100 80 50 T Ov LH demo_tmp_world
           = Inr w'"
  by (simp add: create_full_box_with_lid_def bindE_def difference_def export_def open_w_def
        demo_backend_def demo_tmp_world_def demo_float_str_def os_path_join_def
        os_path_dirname_def Let_def)

lemma demo_base_path:
  "os_path_join ''/tmp/tmpbox'' (base_stl_name demo_backend 100 80 50) =
     ''/tmp/tmpbox/box_base_100.0x80.0x50.0.stl''"
  by (simp add: os_path_join_def base_stl_name_def demo_backend_def demo_float_str_def)

lemma demo_lid_path:
  "os_path_join ''/tmp/tmpbox'' (lid_stl_name demo_backend 100 80 50) =
     ''/tmp/tmpbox/box_lid_100.0x80.0x50.0.stl''"
  by (simp add: os_path_join_def lid_stl_name_def demo_backend_def demo_float_str_def)

subsection \<open>The dimensions of the two solids\<close>

text \<open>
  C2. Whenever \<open>create_full_box_with_lid\<close> returns, the outer box of the exported base has
  extents \<open>(L + 2T, W + 2T, H + T)\<close> and the outer box of the exported lid has extents
  \<open>(L + 2T + 2O, W + 2T + 2O, LH)\<close>. No sign condition on the parameters is needed.
  At L = 100, W = 80, H = 50, T = 2, O = 2, LH = 5 the two envelopes are
  \<open>(104, 84, 52)\<close> and \<open>(108, 88, 5)\<close>.
\<close>

theorem outer_envelopes:
  assumes "create_full_box_with_lid be tmp L W H T Ov LH w = Inr w'"
  shows "(\<exists>m. exported_mesh w' (os_path_join tmp (base_stl_name be L W H)) = Some m \<and>
              minuend m = creation_box (L + 2 * T, W + 2 * T, H + T)) \<and>
         (\<exists>m. exported_mesh w' (os_path_join tmp (lid_stl_name be L W H)) = Some m \<and>
              minuend m = creation_box (L + 2 * T + 2 * Ov, W + 2 * T + 2 * Ov, LH))"
  by (simp add: exported_base [OF assms] exported_lid [OF assms] creation_box_def)

theorem outer_envelopes_witness:
  "\<exists>w'. create_full_box_with_lid demo_backend ''/tmp/tmpbox'' 100 80 50 2 2 5 demo_tmp_world
           = Inr w' \<and>
        (\<exists>m. exported_mesh w' ''/tmp/tmpbox/box_base_100.0x80.0x50.0.stl'' = Some m \<and>
             extents (minuend m) = (104, 84, 52)) \<and>
        (\<exists>m. exported_mesh w' ''/tmp/tmpbox/box_lid_100.0x80.0x50.0.stl'' = Some m \<and>
             extents (minuend m) = (108, 88, 5))"
proof -
  from demo_create [of 2 2 5] obtain w' where
    run: "create_full_box_with_lid demo_backend ''/tmp/tmpbox'' 100 80 50 2 2 5 demo_tmp_world
            = Inr w'" ..
  from outer_envelopes [OF run] show ?thesis
    unfolding demo_base_path demo_lid_path
    by (intro exI [of _ w'] conjI run) (auto simp: creation_box_def)
qed

subsection \<open>Rounding to double precision\<close>







































subsection \<open>The clearance between the lid and the base\<close>




text \<open>
  C3. Whenever \<open>create_full_box_with_lid\<close> returns, the cavity of the exported base is the
  box of extents \<open>(L, W, H)\<close> translated by \<open>(T - 2, T - 2, T / 2)\<close> from the origin, where
  the outer box is centred; these two meshes are the operands the boolean engine was given.
  At T = 0 the translation is \<open>(-2, -2, 0)\<close>.
\<close>

theorem base_cavity:
  assumes "create_full_box_with_lid be tmp L W H T Ov LH w = Inr w'"
  shows "\<exists>m. exported_mesh w' (os_path_join tmp (base_stl_name be L W H)) = Some m \<and>
             subtrahend m = apply_translation (T - 2, T - 2, T / 2) (creation_box (L, W, H)) \<and>
             extents (subtrahend m) = (L, W, H) \<and>
             centre (subtrahend m) = (T - 2, T - 2, T / 2) \<and>
             centre (minuend m) = (0, 0, 0) \<and>
             \<not> boolean_fails be (minuend m) (subtrahend m)"
proof -
  have "\<not> boolean_fails be (creation_box (L + 2 * T, W + 2 * T, H + T))
           (apply_translation (T - 2, T - 2, T / 2) (creation_box (L, W, H)))"
    using assms
    by (auto simp: create_full_box_with_lid_def bindE_def difference_def Let_def
          split: if_splits)
  then show ?thesis
    by (simp add: exported_base [OF assms] creation_box_def)
qed

theorem base_cavity_witness:
  "\<exists>w' m. create_full_box_with_lid demo_backend ''/tmp/tmpbox'' 100 80 50 0 2 5 demo_tmp_world
             = Inr w' \<and>
        exported_mesh w' ''/tmp/tmpbox/box_base_100.0x80.0x50.0.stl'' = Some m \<and>
        extents (subtrahend m) = (100, 80, 50) \<and>
        centre (subtrahend m) = (- 2, - 2, 0)"
proof -
  from demo_create [of 0 2 5] obtain w' where
    run: "create_full_box_with_lid demo_backend ''/tmp/tmpbox'' 100 80 50 0 2 5 demo_tmp_world
            = Inr w'" ..
  from base_cavity [OF run] obtain m where
    "exported_mesh w' ''/tmp/tmpbox/box_base_100.0x80.0x50.0.stl'' = Some m"
    "extents (subtrahend m) = (100, 80, 50)"
    "centre (subtrahend m) = (0 - 2, 0 - 2, 0 / 2)"
    unfolding demo_base_path by blast
  with run show ?thesis by (intro exI [of _ w'] exI [of _ m]) simp
qed

text \<open>
  C4. Whenever \<open>create_full_box_with_lid\<close> returns, the cavity of the exported lid is the
  box of extents \<open>(L + 2T + 0.15, W + 2T + 0.15, LH - T / 2)\<close> translated by
  \<open>(O - 2, O - 2, T / 2)\<close> from the origin, where the lid's outer box is centred; these two
  meshes are the operands the boolean engine was given.
\<close>

theorem lid_cavity:
  assumes "create_full_box_with_lid be tmp L W H T Ov LH w = Inr w'"
  shows "\<exists>m. exported_mesh w' (os_path_join tmp (lid_stl_name be L W H)) = Some m \<and>
             subtrahend m = apply_translation (Ov - 2, Ov - 2, T / 2)
                              (creation_box (L + 2 * T + 0.15, W + 2 * T + 0.15, LH - T / 2)) \<and>
             extents (subtrahend m) = (L + 2 * T + 0.15, W + 2 * T + 0.15, LH - T / 2) \<and>
             centre (subtrahend m) = (Ov - 2, Ov - 2, T / 2) \<and>
             centre (minuend m) = (0, 0, 0) \<and>
             \<not> boolean_fails be (minuend m) (subtrahend m)"
proof -
  have "\<not> boolean_fails be (creation_box (L + 2 * T + 2 * Ov, W + 2 * T + 2 * Ov, LH))
           (apply_translation (Ov - 2, Ov - 2, T / 2)
              (creation_box (L + 2 * T + 0.15, W + 2 * T + 0.15, LH - T / 2)))"
    using assms
    by (auto simp: create_full_box_with_lid_def bindE_def difference_def Let_def
          split: if_splits sum.splits)
  then show ?thesis
    by (simp add: exported_lid [OF assms] creation_box_def)
qed

theorem lid_cavity_witness:
  "\<exists>w' m. create_full_box_with_lid demo_backend ''/tmp/tmpbox'' 100 80 50 2 3 5 demo_tmp_world
             = Inr w' \<and>
        exported_mesh w' ''/tmp/tmpbox/box_lid_100.0x80.0x50.0.stl'' = Some m \<and>
        extents (subtrahend m) = (104.15, 84.15, 4) \<and>
        centre (subtrahend m) = (1, 1, 1)"
proof -
  from demo_create [of 2 3 5] obtain w' where
    run: "create_full_box_with_lid demo_backend ''/tmp/tmpbox'' 100 80 50 2 3 5 demo_tmp_world
            = Inr w'" ..
  from lid_cavity [OF run] obtain m where
    "exported_mesh w' ''/tmp/tmpbox/box_lid_100.0x80.0x50.0.stl'' = Some m"
    "extents (subtrahend m) = (100 + 2 * 2 + 0.15, 80 + 2 * 2 + 0.15, 5 - 2 / 2)"
    "centre (subtrahend m) = (3 - 2, 3 - 2, 2 / 2)"
    unfolding demo_lid_path by blast
  with run show ?thesis by (intro exI [of _ w'] exI [of _ m]) simp
qed

text \<open>
  C6. Both outer boxes are centred at the origin. The cavity of the base sits at the
  horizontal offset \<open>(T - 2, T - 2)\<close>, so it is horizontally centred in the outer box
  exactly when T = 2, and the offset is nonzero for every other T; likewise the cavity of
  the lid with O in place of T.
\<close>

theorem cavity_centred_iff:
  assumes "create_full_box_with_lid be tmp L W H T Ov LH w = Inr w'"
  shows "(\<exists>m. exported_mesh w' (os_path_join tmp (base_stl_name be L W H)) = Some m \<and>
              horizontal (centre (minuend m)) = (0, 0) \<and>
              horizontal (centre (subtrahend m)) = (T - 2, T - 2) \<and>
              (horizontally_centred m \<longleftrightarrow> T = 2) \<and>
              (T - 2 = 0 \<longleftrightarrow> T = 2)) \<and>
         (\<exists>m. exported_mesh w' (os_path_join tmp (lid_stl_name be L W H)) = Some m \<and>
              horizontal (centre (minuend m)) = (0, 0) \<and>
              horizontal (centre (subtrahend m)) = (Ov - 2, Ov - 2) \<and>
              (horizontally_centred m \<longleftrightarrow> Ov = 2) \<and>
              (Ov - 2 = 0 \<longleftrightarrow> Ov = 2))"
  by (auto simp: exported_base [OF assms] exported_lid [OF assms] horizontal_def
        horizontally_centred_def)

theorem cavity_centred_iff_witness:
  "\<exists>w' b l. create_full_box_with_lid demo_backend ''/tmp/tmpbox'' 100 80 50 2 3 5 demo_tmp_world
               = Inr w' \<and>
        exported_mesh w' ''/tmp/tmpbox/box_base_100.0x80.0x50.0.stl'' = Some b \<and>
        exported_mesh w' ''/tmp/tmpbox/box_lid_100.0x80.0x50.0.stl'' = Some l \<and>
        horizontally_centred b \<and> \<not> horizontally_centred l \<and>
        horizontal (centre (subtrahend l)) = (1, 1)"
proof -
  from demo_create [of 2 3 5] obtain w' where
    run: "create_full_box_with_lid demo_backend ''/tmp/tmpbox'' 100 80 50 2 3 5 demo_tmp_world
            = Inr w'" ..
  from cavity_centred_iff [OF run] obtain b l where
    "exported_mesh w' ''/tmp/tmpbox/box_base_100.0x80.0x50.0.stl'' = Some b"
    "exported_mesh w' ''/tmp/tmpbox/box_lid_100.0x80.0x50.0.stl'' = Some l"
    "horizontally_centred b \<longleftrightarrow> (2::real) = 2"
    "horizontally_centred l \<longleftrightarrow> (3::real) = 2"
    "horizontal (centre (subtrahend l)) = (3 - 2, 3 - 2)"
    unfolding demo_base_path demo_lid_path by blast
  with run show ?thesis by (intro exI [of _ w'] exI [of _ b] exI [of _ l]) simp
qed

subsection \<open>Missing dimensions\<close>

text \<open>
  C5. When length, width or height is absent, the controller prints the instruction and
  returns normally: the result is the world it started in with that one line added to the
  standard output. No file and no directory is created (no temporary directory either).
\<close>

theorem missing_dimension:
  assumes "arg_length pa = None \<or> arg_width pa = None \<or> arg_height pa = None"
  shows "\<exists>w'. MyBaseController_default be tmp pa w = Inr w' \<and>
              file_at w' = file_at w \<and> dirs w' = dirs w \<and>
              stdout w' = stdout w @
                [''Please provide the internal length, width, and height of the box.'']"
  using assms by (auto simp: MyBaseController_default_def print_def)

theorem missing_dimension_witness:
  "arg_height (parse_args (Some 100) (Some 80) None None None None) = None \<and>
   (\<exists>w'. MyBaseController_default demo_backend ''/tmp/tmpbox''
            (parse_args (Some 100) (Some 80) None None None None) demo_world = Inr w' \<and>
         file_at w' = Map.empty \<and> dirs w' = {''/tmp''} \<and>
         stdout w' = [''Please provide the internal length, width, and height of the box.''])"
proof -
  have h: "arg_height (parse_args (Some 100) (Some 80) None None None None) = None"
    by (simp add: parse_args_def)
  then have "arg_length (parse_args (Some 100) (Some 80) None None None None) = None \<or>
             arg_width (parse_args (Some 100) (Some 80) None None None None) = None \<or>
             arg_height (parse_args (Some 100) (Some 80) None None None None) = None"
    by simp
  from missing_dimension [OF this, of demo_backend "''/tmp/tmpbox''" demo_world] h
  show ?thesis by (simp add: demo_world_def)
qed

subsection \<open>Paths\<close>

lemma basename_append_slash:
  assumes "CHR ''/'' \<notin> set n"
  shows "os_path_basename (a @ CHR ''/'' # n) = n"
proof -
  have "takeWhile (\<lambda>c. c \<noteq> CHR ''/'') (rev n @ CHR ''/'' # rev a) = rev n"
    using assms by (subst takeWhile_append2) auto
  then show ?thesis by (simp add: os_path_basename_def)
qed

lemma basename_plain:
  assumes "CHR ''/'' \<notin> set n"
  shows "os_path_basename n = n"
proof -
  have "takeWhile (\<lambda>c. c \<noteq> CHR ''/'') (rev n) = rev n"
    using assms by (auto simp: takeWhile_eq_all_conv)
  then show ?thesis by (simp only: os_path_basename_def rev_rev_ident)
qed

lemma basename_join:
  assumes "CHR ''/'' \<notin> set n"
  shows "os_path_basename (os_path_join d n) = n"
proof (cases "d = []")
  case True
  with assms basename_plain [OF assms] show ?thesis
    by (cases n) (auto simp: os_path_join_def)
next
  case False
  then obtain d' c where d: "d = d' @ [c]"
    by (metis rev_exhaust)
  from assms have hd: "\<not> (n \<noteq> [] \<and> hd n = CHR ''/'')"
    by (cases n) auto
  show ?thesis
  proof (cases "c = CHR ''/''")
    case True
    with d hd assms show ?thesis
      using basename_append_slash [of n d'] by (auto simp: os_path_join_def)
  next
    case False
    with d hd assms show ?thesis
      using basename_append_slash [of n d] by (auto simp: os_path_join_def)
  qed
qed

lemma basename_no_slash: "CHR ''/'' \<notin> set (os_path_basename p)"
proof -
  have "c \<noteq> CHR ''/''" if "c \<in> set (takeWhile (\<lambda>c. c \<noteq> CHR ''/'') (rev p))" for c
    using set_takeWhileD [OF that] by simp
  then show ?thesis by (auto simp: os_path_basename_def)
qed

lemma dirname_archive:
  assumes n: "CHR ''/'' \<notin> set n"
  shows "os_path_dirname (''archive/'' @ n) = ''archive''"
proof -
  have "dropWhile (\<lambda>c. c \<noteq> CHR ''/'') (rev n @ ''/evihcra'') = ''/evihcra''"
    using n by (subst dropWhile_append2) auto
  then show ?thesis
    by (simp add: os_path_dirname_def)
qed

lemma last_join: "n \<noteq> [] \<Longrightarrow> last (os_path_join d n) = last n"
  by (simp add: os_path_join_def)

lemma below_archive:
  assumes "below d (''archive/'' @ n)" and "CHR ''/'' \<notin> set n"
  shows "d = ''archive''"
proof -
  from assms(1) obtain r where r: "''archive/'' @ n = (d @ ''/'') @ r"
    by (auto simp: below_def prefix_def)
  have "length (filter (\<lambda>c. c = CHR ''/'') (''archive/'' @ n)) = 1"
    using assms(2) by (auto simp: filter_empty_conv)
  with r have "length (filter (\<lambda>c. c = CHR ''/'') ((d @ ''/'') @ r)) = 1"
    by simp
  then have "filter (\<lambda>c. c = CHR ''/'') d = []"
    by simp
  then have d: "CHR ''/'' \<notin> set d"
    by (auto simp: filter_empty_conv)
  then have "takeWhile (\<lambda>c. c \<noteq> CHR ''/'') (d @ CHR ''/'' # r) = d"
    by (subst takeWhile_append2) auto
  with r have "takeWhile (\<lambda>c. c \<noteq> CHR ''/'') (''archive/'' @ n) = d"
    by simp
  then show ?thesis by simp
qed

lemma join_scratch:
  assumes "d \<noteq> []" and "last d \<noteq> CHR ''/''" and "CHR ''/'' \<notin> set n"
  shows "os_path_join d n = d @ CHR ''/'' # n"
  using assms by (cases n) (auto simp: os_path_join_def)

lemma dirname_join:
  assumes d: "d \<noteq> []" and l: "last d \<noteq> CHR ''/''" and n: "CHR ''/'' \<notin> set n"
  shows "os_path_dirname (os_path_join d n) = d"
proof -
  have 1: "dropWhile (\<lambda>c. c \<noteq> CHR ''/'') (rev n @ CHR ''/'' # rev d) = CHR ''/'' # rev d"
    using n by (subst dropWhile_append2) auto
  have "last d \<in> set d" using d by simp
  with l have 2: "dropWhile (\<lambda>c. c = CHR ''/'') (d @ ''/'') \<noteq> []"
    by (auto simp: dropWhile_eq_Nil_conv)
  from d l have "hd (rev d) \<noteq> CHR ''/''" by (simp add: hd_rev)
  with d have 3: "dropWhile (\<lambda>c. c = CHR ''/'') (rev d) = rev d"
    by (cases "rev d") auto
  show ?thesis
    unfolding join_scratch [OF assms] os_path_dirname_def
    using 1 2 3 d by (simp add: Let_def)
qed

lemma abs_ne_archive:
  assumes "tmp \<noteq> []" and "hd tmp = CHR ''/''"
  shows "os_path_join tmp n \<noteq> ''archive/'' @ m" and "os_path_join tmp n \<noteq> ''archive''"
    and "tmp \<noteq> ''archive/'' @ m" and "tmp \<noteq> ''archive''"
  using assms by (cases tmp; cases n; auto simp: os_path_join_def)+

lemma names_no_slash:
  assumes "\<And>r. CHR ''/'' \<notin> set (float_str be r)"
  shows "CHR ''/'' \<notin> set (base_stl_name be L W H)"
    and "CHR ''/'' \<notin> set (lid_stl_name be L W H)"
    and "CHR ''/'' \<notin> set (tar_gz_name be L W H)"
  using assms by (simp_all add: base_stl_name_def lid_stl_name_def tar_gz_name_def)

lemma join_archive:
  "os_path_join ''archive'' (base_stl_name be L W H) = ''archive/'' @ base_stl_name be L W H"
  "os_path_join ''archive'' (lid_stl_name be L W H) = ''archive/'' @ lid_stl_name be L W H"
  "os_path_join ''archive'' (tar_gz_name be L W H) = ''archive/'' @ tar_gz_name be L W H"
  "os_path_join ''archive'' ''README.txt'' = ''archive/README.txt''"
  by (simp_all add: os_path_join_def base_stl_name_def lid_stl_name_def tar_gz_name_def)

lemma scratch_paths_distinct:
  "os_path_join d (base_stl_name be L W H) \<noteq> os_path_join d (lid_stl_name be L W H)"
  "os_path_join d (base_stl_name be L W H) \<noteq> os_path_join d ''README.txt''"
  "os_path_join d (lid_stl_name be L W H) \<noteq> os_path_join d ''README.txt''"
  by (simp_all add: os_path_join_def base_stl_name_def lid_stl_name_def)

lemma tar_path_not_scratch:
  "os_path_join a (tar_gz_name be L W H) \<noteq> os_path_join d (base_stl_name be L W H)"
  "os_path_join a (tar_gz_name be L W H) \<noteq> os_path_join d (lid_stl_name be L W H)"
  "os_path_join a (tar_gz_name be L W H) \<noteq> os_path_join d ''README.txt''"
proof -
  have z: "last (os_path_join a (tar_gz_name be L W H)) = CHR ''z''"
    by (simp add: last_join tar_gz_name_def)
  have "last (os_path_join d (base_stl_name be L W H)) = CHR ''l''"
    by (simp add: last_join base_stl_name_def)
  with z show "os_path_join a (tar_gz_name be L W H) \<noteq> os_path_join d (base_stl_name be L W H)"
    by auto
  have "last (os_path_join d (lid_stl_name be L W H)) = CHR ''l''"
    by (simp add: last_join lid_stl_name_def)
  with z show "os_path_join a (tar_gz_name be L W H) \<noteq> os_path_join d (lid_stl_name be L W H)"
    by auto
  have "last (os_path_join d ''README.txt'') = CHR ''t''"
    by (simp add: last_join)
  with z show "os_path_join a (tar_gz_name be L W H) \<noteq> os_path_join d ''README.txt''"
    by auto
qed

lemma names_distinct:
  "base_stl_name be L W H \<noteq> tar_gz_name be L W H"
  "lid_stl_name be L W H \<noteq> tar_gz_name be L W H"
  "''README.txt'' \<noteq> tar_gz_name be L W H"
proof -
  have z: "last (tar_gz_name be L W H) = CHR ''z''"
    by (simp add: tar_gz_name_def)
  have b: "last (base_stl_name be L W H) = CHR ''l''"
    by (simp add: base_stl_name_def)
  have l: "last (lid_stl_name be L W H) = CHR ''l''"
    by (simp add: lid_stl_name_def)
  show "base_stl_name be L W H \<noteq> tar_gz_name be L W H"
  proof
    assume "base_stl_name be L W H = tar_gz_name be L W H"
    then have "last (base_stl_name be L W H) = last (tar_gz_name be L W H)" by (rule arg_cong)
    then show False unfolding z b by simp
  qed
  show "lid_stl_name be L W H \<noteq> tar_gz_name be L W H"
  proof
    assume "lid_stl_name be L W H = tar_gz_name be L W H"
    then have "last (lid_stl_name be L W H) = last (tar_gz_name be L W H)" by (rule arg_cong)
    then show False unfolding z l by simp
  qed
  show "''README.txt'' \<noteq> tar_gz_name be L W H"
  proof
    assume "''README.txt'' = tar_gz_name be L W H"
    then have "last ''README.txt'' = last (tar_gz_name be L W H)" by (rule arg_cong)
    then show False unfolding z by simp
  qed
qed

subsection \<open>File operations that return\<close>

lemma bindE_Inr_left: "bindE (Inr x) f = f x"
  by (simp add: bindE_def)

lemma bindE_InrE:
  assumes "bindE r f = Inr y"
  obtains x where "r = Inr x" and "f x = Inr y"
  using assms by (auto simp: bindE_Inr)

lemma base_name_fstring:
  "fstring be [Lit ''box_base_'', Val l, Lit ''x'', Val w, Lit ''x'', Val h, Lit ''.stl'']
     = base_stl_name be l w h"
  by (simp add: base_stl_name_def)

lemma lid_name_fstring:
  "fstring be [Lit ''box_lid_'', Val l, Lit ''x'', Val w, Lit ''x'', Val h, Lit ''.stl'']
     = lid_stl_name be l w h"
  by (simp add: lid_stl_name_def)

lemma tar_name_fstring:
  "fstring be [Str (fstring be [Lit ''box_'', Val l, Lit ''x'', Val w, Lit ''x'', Val h]),
               Lit ''.tar.gz'']
     = tar_gz_name be l w h"
  by (simp add: tar_gz_name_def)

lemma open_w_Inr:
  assumes "open_w p c w = Inr w'"
  shows "w' = w\<lparr>file_at := (file_at w)(p \<mapsto> c)\<rparr>"
    and "os_path_dirname p = [] \<or> os_path_dirname p \<in> dirs w"
  using assms by (auto simp: open_w_def Let_def split: if_splits)

lemma tar_add_Inr:
  assumes "tar_add name file arcname w = Inr w'" and "file \<noteq> name"
    and "file_at w name = Some (TarGz ms)"
  shows "\<exists>c. file_at w file = Some c \<and>
             w' = w\<lparr>file_at := (file_at w)(name \<mapsto> TarGz (ms @ [(arcname, c)]))\<rparr>"
  using assms by (auto simp: tar_add_def split: option.splits)

lemma tar_add_each_Inr:
  assumes "tar_add_each name fs w = Inr w'" and "name \<notin> set fs"
    and "file_at w name = Some (TarGz ms)"
  shows "w' = w\<lparr>file_at := (file_at w)
                  (name \<mapsto> TarGz (ms @ map (\<lambda>f. (os_path_basename f, the (file_at w f))) fs))\<rparr>
         \<and> (\<forall>f \<in> set fs. file_at w f \<noteq> None)"
  using assms
proof (induction fs arbitrary: w ms)
  case Nil
  then have "w' = w" and "(file_at w)(name \<mapsto> TarGz ms) = file_at w"
    by (auto simp: fun_upd_idem)
  then show ?case by simp
next
  case (Cons f fs)
  from Cons.prems(1) obtain w1 where
    add: "tar_add name f (os_path_basename f) w = Inr w1" and
    rest: "tar_add_each name fs w1 = Inr w'"
    by (auto simp: bindE_Inr)
  from Cons.prems(2) have ne: "f \<noteq> name" and nin: "name \<notin> set fs" by auto
  from tar_add_Inr [OF add ne Cons.prems(3)] obtain c where
    c: "file_at w f = Some c" and
    w1: "w1 = w\<lparr>file_at := (file_at w)(name \<mapsto> TarGz (ms @ [(os_path_basename f, c)]))\<rparr>"
    by blast
  have at1: "file_at w1 name = Some (TarGz (ms @ [(os_path_basename f, c)]))"
    by (simp add: w1)
  have same: "file_at w1 g = file_at w g" if "g \<in> set fs" for g
    using that nin by (auto simp: w1)
  from Cons.IH [OF rest nin at1] have
    w': "w' = w1\<lparr>file_at := (file_at w1)
           (name \<mapsto> TarGz ((ms @ [(os_path_basename f, c)]) @
               map (\<lambda>f. (os_path_basename f, the (file_at w1 f))) fs))\<rparr>"
    and ex: "\<forall>g \<in> set fs. file_at w1 g \<noteq> None"
    by blast+
  have eq: "map (\<lambda>f. (os_path_basename f, the (file_at w1 f))) fs =
        map (\<lambda>f. (os_path_basename f, the (file_at w f))) fs"
    using same by simp
  have w'': "w' = w1\<lparr>file_at := (file_at w1)
           (name \<mapsto> TarGz (ms @ (os_path_basename f, c) #
               map (\<lambda>f. (os_path_basename f, the (file_at w f))) fs))\<rparr>"
    using w' unfolding eq by simp
  have "w' = w\<lparr>file_at := (file_at w)
           (name \<mapsto> TarGz (ms @ map (\<lambda>f. (os_path_basename f, the (file_at w f))) (f # fs)))\<rparr>"
    by (simp add: w'' w1 c)
  moreover have "\<forall>g \<in> set (f # fs). file_at w g \<noteq> None"
    using ex same c by auto
  ultimately show ?case by blast
qed

lemma create_tar_gz_Inr:
  assumes "create_tar_gz be out fs w = Inr w'" and "out \<notin> set fs"
  shows "w' = w\<lparr>file_at := (file_at w)
                  (out \<mapsto> TarGz (map (\<lambda>f. (os_path_basename f, the (file_at w f))) fs)),
                stdout := stdout w @ [''Created and archived '' @ out]\<rparr>"
    and "\<forall>f \<in> set fs. file_at w f \<noteq> None"
    and "os_path_dirname out = [] \<or> os_path_dirname out \<in> dirs w"
proof -
  from assms(1) obtain w1 w2 where
    op: "open_w out (TarGz []) w = Inr w1" and
    each: "tar_add_each out fs w1 = Inr w2" and
    w': "w' = print (''Created and archived '' @ out) w2"
    by (auto simp: create_tar_gz_def tarfile_open_def bindE_Inr)
  note w1 = open_w_Inr(1) [OF op]
  have at: "file_at w1 out = Some (TarGz [])" by (simp add: w1)
  from tar_add_each_Inr [OF each assms(2) at] have
    w2: "w2 = w1\<lparr>file_at := (file_at w1)
           (out \<mapsto> TarGz ([] @ map (\<lambda>f. (os_path_basename f, the (file_at w1 f))) fs))\<rparr>"
    and ex: "\<forall>f \<in> set fs. file_at w1 f \<noteq> None"
    by blast+
  have same: "file_at w1 g = file_at w g" if "g \<in> set fs" for g
    using that assms(2) by (auto simp: w1)
  then have eq: "map (\<lambda>f. (os_path_basename f, the (file_at w1 f))) fs =
        map (\<lambda>f. (os_path_basename f, the (file_at w f))) fs"
    by simp
  have w2': "w2 = w1\<lparr>file_at := (file_at w1)
           (out \<mapsto> TarGz (map (\<lambda>f. (os_path_basename f, the (file_at w f))) fs))\<rparr>"
    using w2 unfolding eq by simp
  show "w' = w\<lparr>file_at := (file_at w)
                  (out \<mapsto> TarGz (map (\<lambda>f. (os_path_basename f, the (file_at w f))) fs)),
                stdout := stdout w @ [''Created and archived '' @ out]\<rparr>"
    by (simp add: w' w2' w1 print_def)
  from ex same show "\<forall>f \<in> set fs. file_at w f \<noteq> None" by simp
  from open_w_Inr(2) [OF op] show "os_path_dirname out = [] \<or> os_path_dirname out \<in> dirs w" .
qed

lemma shutil_move_Inr:
  assumes "shutil_move src dst w = Inr w'" and "dst \<in> dirs w"
  shows "\<exists>c. file_at w src = Some c \<and>
             \<not> os_path_exists w (os_path_join dst (os_path_basename src)) \<and>
             w' = w\<lparr>file_at := ((file_at w)(src := None))
                                (os_path_join dst (os_path_basename src) \<mapsto> c)\<rparr>"
  using assms
  by (auto simp: shutil_move_def os_rename_def Let_def split: if_splits option.splits)

lemma move_dirs:
  assumes "shutil_move src dst w = Inr w'"
  shows "dirs w' = dirs w"
  using assms
  by (auto simp: shutil_move_def os_rename_def Let_def split: if_splits option.splits)

lemma move_preserves:
  assumes "shutil_move src dst w = Inr w'" and "dst \<in> dirs w"
    and "file_at w q \<noteq> None" and "q \<noteq> src"
  shows "file_at w' q = file_at w q"
proof -
  from shutil_move_Inr [OF assms(1,2)] obtain c where
    ne: "\<not> os_path_exists w (os_path_join dst (os_path_basename src))" and
    w': "w' = w\<lparr>file_at := ((file_at w)(src := None))
                                (os_path_join dst (os_path_basename src) \<mapsto> c)\<rparr>"
    by blast
  from ne assms(3) have "q \<noteq> os_path_join dst (os_path_basename src)"
    by (auto simp: os_path_exists_def)
  with assms(4) show ?thesis by (simp add: w')
qed

lemma move_result:
  assumes "shutil_move src dst w = Inr w'" and "dst \<in> dirs w"
  shows "file_at w' (os_path_join dst (os_path_basename src)) = file_at w src"
    and "file_at w src \<noteq> None"
    and "file_at w (os_path_join dst (os_path_basename src)) = None"
  using shutil_move_Inr [OF assms] by (auto simp: os_path_exists_def)

lemma open_w_ok:
  assumes "p \<notin> dirs w" and "os_path_dirname p = d" and "d \<in> dirs w" and "file_at w d = None"
  shows "open_w p c w = Inr (w\<lparr>file_at := (file_at w)(p \<mapsto> c)\<rparr>)"
  using assms by (simp add: open_w_def Let_def)

lemma shutil_move_ok:
  assumes "dst \<in> dirs w" and "file_at w src = Some c"
    and "\<not> os_path_exists w (os_path_join dst (os_path_basename src))"
  shows "shutil_move src dst w =
           Inr (w\<lparr>file_at := ((file_at w)(src := None))
                                (os_path_join dst (os_path_basename src) \<mapsto> c)\<rparr>)"
  using assms by (simp add: shutil_move_def os_rename_def Let_def)

lemma tar_add_each_ok:
  assumes "\<forall>f \<in> set fs. f \<noteq> name \<and> file_at w f \<noteq> None" and "file_at w name = Some (TarGz ms)"
  shows "\<exists>w'. tar_add_each name fs w = Inr w'"
  using assms
proof (induction fs arbitrary: w ms)
  case Nil
  then show ?case by simp
next
  case (Cons f fs)
  from Cons.prems obtain c where c: "file_at w f = Some c" and ne: "f \<noteq> name" by auto
  let ?w1 = "w\<lparr>file_at := (file_at w)(name \<mapsto> TarGz (ms @ [(os_path_basename f, c)]))\<rparr>"
  have add: "tar_add name f (os_path_basename f) w = Inr ?w1"
    using c ne Cons.prems(2) by (simp add: tar_add_def)
  have "\<forall>g \<in> set fs. g \<noteq> name \<and> file_at ?w1 g \<noteq> None"
    using Cons.prems(1) by auto
  moreover have "file_at ?w1 name = Some (TarGz (ms @ [(os_path_basename f, c)]))"
    by simp
  ultimately obtain w' where "tar_add_each name fs ?w1 = Inr w'"
    using Cons.IH by blast
  with add show ?case by (simp add: bindE_def)
qed

lemma create_tar_gz_ok:
  assumes "out \<notin> dirs w" and "os_path_dirname out = d" and "d \<in> dirs w"
    and "file_at w d = None" and "\<forall>f \<in> set fs. f \<noteq> out \<and> file_at w f \<noteq> None"
  shows "\<exists>w'. create_tar_gz be out fs w = Inr w'"
proof -
  let ?w1 = "w\<lparr>file_at := (file_at w)(out \<mapsto> TarGz [])\<rparr>"
  have op: "open_w out (TarGz []) w = Inr ?w1"
    using assms(1-4) by (rule open_w_ok)
  have "\<forall>f \<in> set fs. f \<noteq> out \<and> file_at ?w1 f \<noteq> None"
    using assms(5) by auto
  moreover have "file_at ?w1 out = Some (TarGz [])" by simp
  ultimately obtain w2 where "tar_add_each out fs ?w1 = Inr w2"
    using tar_add_each_ok by blast
  with op show ?thesis
    by (simp add: create_tar_gz_def tarfile_open_def bindE_def)
qed

lemma create_full_box_with_lid_ok:
  assumes "\<And>a b. \<not> boolean_fails be a b"
    and "os_path_join tmp (base_stl_name be L W H) \<notin> dirs w"
    and "os_path_join tmp (lid_stl_name be L W H) \<notin> dirs w"
    and "os_path_dirname (os_path_join tmp (base_stl_name be L W H)) = tmp"
    and "os_path_dirname (os_path_join tmp (lid_stl_name be L W H)) = tmp"
    and "tmp \<in> dirs w" and "file_at w tmp = None"
    and "tmp \<noteq> os_path_join tmp (base_stl_name be L W H)"
  shows "\<exists>w'. create_full_box_with_lid be tmp L W H T Ov LH w = Inr w'"
proof -
  let ?pb = "os_path_join tmp (base_stl_name be L W H)"
  let ?pl = "os_path_join tmp (lid_stl_name be L W H)"
  have 1: "open_w ?pb c w = Inr (w\<lparr>file_at := (file_at w)(?pb \<mapsto> c)\<rparr>)" for c
    using assms(2,4,6,7) by (rule open_w_ok)
  have 2: "open_w ?pl c' (w\<lparr>file_at := (file_at w)(?pb \<mapsto> c)\<rparr>) =
             Inr (w\<lparr>file_at := (file_at w)(?pb \<mapsto> c, ?pl \<mapsto> c')\<rparr>)" for c c'
    using assms(3,5,6,7,8) by (simp add: open_w_def)
  show ?thesis
    unfolding create_full_box_with_lid_def Let_def base_name_fstring lid_name_fstring
    by (simp add: bindE_def difference_def export_def assms(1) 1 2)
qed

subsection \<open>Runs of the controller\<close>

lemma default_body_names:
  "default_body be tmp L W H T Ov LH w =
     bindE (create_full_box_with_lid be tmp L W H T Ov LH w) (\<lambda>w.
     bindE (open_w (os_path_join tmp ''README.txt'')
              (Text (fstring be (readme_pieces L W H T Ov LH))) w) (\<lambda>w.
     bindE (if \<not> os_path_exists w ''archive'' then os_makedirs ''archive'' w else Inr w) (\<lambda>w.
     bindE (create_tar_gz be (os_path_join ''archive'' (tar_gz_name be L W H))
              [os_path_join tmp (base_stl_name be L W H),
               os_path_join tmp (lid_stl_name be L W H),
               os_path_join tmp ''README.txt''] w) (\<lambda>w.
     move_each
              [os_path_join tmp (base_stl_name be L W H),
               os_path_join tmp (lid_stl_name be L W H),
               os_path_join tmp ''README.txt''] ''archive'' w))))"
  unfolding default_body_def base_stl_name_def lid_stl_name_def tar_gz_name_def ..

lemma default_unfold:
  assumes L: "arg_length pa = Some L" and W: "arg_width pa = Some W"
    and H: "arg_height pa = Some H"
  shows "MyBaseController_default be tmp pa w =
           with_TemporaryDirectory tmp
             (default_body be tmp L W H (arg_thickness pa) (arg_overlap pa) (arg_lid_height pa)) w"
proof -
  have "default_body be tmp L W H (arg_thickness pa) (arg_overlap pa) (arg_lid_height pa) =
        (\<lambda>w. default_body be tmp L W H (arg_thickness pa) (arg_overlap pa) (arg_lid_height pa) w)"
    by simp
  then show ?thesis
    unfolding default_body_names
    by (simp only: MyBaseController_default_def Let_def L W H
          option.sel option.distinct simp_thms if_False if_True base_name_fstring lid_name_fstring
          tar_name_fstring last.simps list.distinct)
qed

lemma with_TemporaryDirectory_Inr:
  "with_TemporaryDirectory tmp body w = Inr w' \<longleftrightarrow>
     (\<exists>w1 w6. mkdtemp tmp w = Inr w1 \<and> body w1 = Inr w6 \<and> w' = rmtree tmp w6)"
  by (auto simp: with_TemporaryDirectory_def bindE_def split: sum.splits)

lemma default_steps:
  assumes run: "MyBaseController_default be tmp pa w = Inr w'"
    and L: "arg_length pa = Some L" and W: "arg_width pa = Some W"
    and H: "arg_height pa = Some H"
  shows "\<exists>w1 w2 w3 w4 w5 w6.
           mkdtemp tmp w = Inr w1 \<and>
           create_full_box_with_lid be tmp L W H (arg_thickness pa) (arg_overlap pa)
             (arg_lid_height pa) w1 = Inr w2 \<and>
           open_w (os_path_join tmp ''README.txt'')
             (Text (fstring be (readme_pieces L W H (arg_thickness pa) (arg_overlap pa)
                                  (arg_lid_height pa)))) w2 = Inr w3 \<and>
           (if \<not> os_path_exists w3 ''archive'' then os_makedirs ''archive'' w3 else Inr w3)
             = Inr w4 \<and>
           create_tar_gz be (os_path_join ''archive'' (tar_gz_name be L W H))
             [os_path_join tmp (base_stl_name be L W H),
              os_path_join tmp (lid_stl_name be L W H),
              os_path_join tmp ''README.txt''] w4 = Inr w5 \<and>
           move_each
             [os_path_join tmp (base_stl_name be L W H),
              os_path_join tmp (lid_stl_name be L W H),
              os_path_join tmp ''README.txt''] ''archive'' w5 = Inr w6 \<and>
           w' = rmtree tmp w6"
proof -
  from run obtain w1 w6 where
    s1: "mkdtemp tmp w = Inr w1" and
    body: "default_body be tmp L W H (arg_thickness pa) (arg_overlap pa) (arg_lid_height pa) w1
             = Inr w6" and
    s7: "w' = rmtree tmp w6"
    unfolding default_unfold [OF L W H] with_TemporaryDirectory_Inr by blast
  from body [unfolded default_body_names] obtain w2 w3 w4 w5 where
    "create_full_box_with_lid be tmp L W H (arg_thickness pa) (arg_overlap pa)
                   (arg_lid_height pa) w1 = Inr w2"
    "open_w (os_path_join tmp ''README.txt'')
                    (Text (fstring be (readme_pieces L W H (arg_thickness pa) (arg_overlap pa)
                                  (arg_lid_height pa)))) w2 = Inr w3"
    "(if \<not> os_path_exists w3 ''archive'' then os_makedirs ''archive'' w3 else Inr w3) = Inr w4"
    "create_tar_gz be (os_path_join ''archive'' (tar_gz_name be L W H))
                    [os_path_join tmp (base_stl_name be L W H),
                     os_path_join tmp (lid_stl_name be L W H),
                     os_path_join tmp ''README.txt''] w4 = Inr w5"
    "move_each
                    [os_path_join tmp (base_stl_name be L W H),
                     os_path_join tmp (lid_stl_name be L W H),
                     os_path_join tmp ''README.txt''] ''archive'' w5 = Inr w6"
    by (elim bindE_InrE)
  with s1 s7 show ?thesis by blast
qed

lemma default_outputs:
  assumes run: "MyBaseController_default be tmp pa w = Inr w'"
    and L: "arg_length pa = Some L" and W: "arg_width pa = Some W"
    and H: "arg_height pa = Some H"
    and fmt: "\<And>r. CHR ''/'' \<notin> set (float_str be r)"
  shows "file_at w' (''archive/'' @ tar_gz_name be L W H) =
           Some (TarGz
             [(base_stl_name be L W H, Stl (box_base L W H (arg_thickness pa))),
              (lid_stl_name be L W H,
               Stl (box_lid L W H (arg_thickness pa) (arg_overlap pa) (arg_lid_height pa))),
              (''README.txt'',
               Text (manifest_text be L W H (arg_thickness pa) (arg_overlap pa)
                       (arg_lid_height pa)))])"
    and "file_at w' (''archive/'' @ base_stl_name be L W H) =
           Some (Stl (box_base L W H (arg_thickness pa)))"
    and "file_at w' (''archive/'' @ lid_stl_name be L W H) =
           Some (Stl (box_lid L W H (arg_thickness pa) (arg_overlap pa) (arg_lid_height pa)))"
    and "file_at w' ''archive/README.txt'' =
           Some (Text (manifest_text be L W H (arg_thickness pa) (arg_overlap pa)
                         (arg_lid_height pa)))"
proof -
  let ?bn = "base_stl_name be L W H" and ?ln = "lid_stl_name be L W H"
    and ?tn = "tar_gz_name be L W H"
  let ?pb = "os_path_join tmp ?bn" and ?pl = "os_path_join tmp ?ln"
    and ?pr = "os_path_join tmp ''README.txt''"
  let ?out = "os_path_join ''archive'' ?tn"
  let ?B = "Stl (box_base L W H (arg_thickness pa))"
  let ?Lm = "Stl (box_lid L W H (arg_thickness pa) (arg_overlap pa) (arg_lid_height pa))"
  let ?R = "Text (manifest_text be L W H (arg_thickness pa) (arg_overlap pa)
                    (arg_lid_height pa))"
  note ns = names_no_slash [of be L W H, OF fmt]
  have rs: "CHR ''/'' \<notin> set ''README.txt''" by simp
  from default_steps [OF run L W H] obtain w1 w2 w3 w4 w5 w6 where
    s1: "mkdtemp tmp w = Inr w1" and
    s2: "create_full_box_with_lid be tmp L W H (arg_thickness pa) (arg_overlap pa)
             (arg_lid_height pa) w1 = Inr w2" and
    s3: "open_w ?pr ?R w2 = Inr w3" and
    s4: "(if \<not> os_path_exists w3 ''archive'' then os_makedirs ''archive'' w3 else Inr w3)
             = Inr w4" and
    s5: "create_tar_gz be ?out [?pb, ?pl, ?pr] w4 = Inr w5" and
    s6: "move_each [?pb, ?pl, ?pr] ''archive'' w5 = Inr w6" and
    s7: "w' = rmtree tmp w6"
    unfolding manifest_text_def by blast
  note d = scratch_paths_distinct [of tmp be L W H]
  note o = tar_path_not_scratch [of "''archive''" be L W H tmp]
  \<comment> \<open>the three files in the scratch directory\<close>
  have f2: "file_at w2 = (file_at w1)(?pb \<mapsto> ?B, ?pl \<mapsto> ?Lm)"
    by (simp add: create_full_box_with_lid_Inr [OF s2] box_base_def box_lid_def)
  have f3: "file_at w3 = (file_at w2)(?pr \<mapsto> ?R)"
    by (simp add: open_w_Inr(1) [OF s3])
  have f4: "file_at w4 = file_at w3"
    using s4 by (auto simp: os_makedirs_def split: if_splits)
  have b4: "file_at w4 ?pb = Some ?B" and l4: "file_at w4 ?pl = Some ?Lm"
    and r4: "file_at w4 ?pr = Some ?R"
    using d by (simp_all add: f4 f3 f2)
  \<comment> \<open>the archive\<close>
  have notin: "?out \<notin> set [?pb, ?pl, ?pr]"
    using o by simp
  have bs: "os_path_basename ?pb = ?bn" "os_path_basename ?pl = ?ln"
    "os_path_basename ?pr = ''README.txt''"
    using basename_join [OF ns(1)] basename_join [OF ns(2)] basename_join [OF rs] by simp_all
  have f5: "file_at w5 = (file_at w4)
              (?out \<mapsto> TarGz [(?bn, ?B), (?ln, ?Lm), (''README.txt'', ?R)])"
    by (simp add: create_tar_gz_Inr(1) [OF s5 notin] b4 l4 r4 bs)
  have d5: "dirs w5 = dirs w4"
    by (simp add: create_tar_gz_Inr(1) [OF s5 notin])
  have "os_path_dirname ?out = ''archive''"
    using dirname_archive [OF ns(3)] by (simp add: join_archive)
  with create_tar_gz_Inr(3) [OF s5 notin] have "''archive'' \<in> dirs w4"
    by simp
  with d5 have a5: "''archive'' \<in> dirs w5" by simp
  have o5: "file_at w5 ?out = Some (TarGz [(?bn, ?B), (?ln, ?Lm), (''README.txt'', ?R)])"
    by (simp add: f5)
  have b5: "file_at w5 ?pb = Some ?B" and l5: "file_at w5 ?pl = Some ?Lm"
    and r5: "file_at w5 ?pr = Some ?R"
    using o b4 l4 r4 by (simp_all add: f5)
  \<comment> \<open>the three moves\<close>
  from s6 obtain wa wb where
    m1: "shutil_move ?pb ''archive'' w5 = Inr wa" and
    m2: "shutil_move ?pl ''archive'' wa = Inr wb" and
    m3: "shutil_move ?pr ''archive'' wb = Inr w6"
    by (auto simp: bindE_Inr)
  have aa: "''archive'' \<in> dirs wa" using a5 move_dirs [OF m1] by simp
  then have ab: "''archive'' \<in> dirs wb" using move_dirs [OF m2] by simp
  let ?ab = "''archive/'' @ ?bn" and ?al = "''archive/'' @ ?ln"
  note r1 = move_result [OF m1 a5, unfolded bs join_archive]
  note r2 = move_result [OF m2 aa, unfolded bs join_archive]
  note r3 = move_result [OF m3 ab, unfolded bs join_archive]
  \<comment> \<open>first move\<close>
  have ba: "file_at wa ?ab = Some ?B" using r1(1) b5 by simp
  have la: "file_at wa ?pl = Some ?Lm"
    using move_preserves [OF m1 a5, of ?pl] l5 d by simp
  have ra: "file_at wa ?pr = Some ?R"
    using move_preserves [OF m1 a5, of ?pr] r5 d by simp
  have oa: "file_at wa ?out = file_at w5 ?out"
    using move_preserves [OF m1 a5, of ?out] o5 o by simp
  \<comment> \<open>second move\<close>
  have lb: "file_at wb ?al = Some ?Lm" using r2(1) la by simp
  have bb: "file_at wb ?ab = Some ?B"
  proof -
    have "?ab \<noteq> ?pl" using r1(3) l5 by auto
    with move_preserves [OF m2 aa, of ?ab] ba show ?thesis by simp
  qed
  have rb: "file_at wb ?pr = Some ?R"
    using move_preserves [OF m2 aa, of ?pr] ra d by simp
  have ob: "file_at wb ?out = file_at w5 ?out"
    using move_preserves [OF m2 aa, of ?out] oa o5 o by simp
  \<comment> \<open>third move\<close>
  have r6: "file_at w6 ''archive/README.txt'' = Some ?R" using r3(1) rb by simp
  have b6: "file_at w6 ?ab = Some ?B"
  proof -
    have "?ab \<noteq> ?pr" using r1(3) r5 by auto
    with move_preserves [OF m3 ab, of ?ab] bb show ?thesis by simp
  qed
  have l6: "file_at w6 ?al = Some ?Lm"
  proof -
    have "?al \<noteq> ?pr" using r2(3) ra by auto
    with move_preserves [OF m3 ab, of ?al] lb show ?thesis by simp
  qed
  have o6: "file_at w6 ?out = file_at w5 ?out"
    using move_preserves [OF m3 ab, of ?out] ob o5 o by simp
  \<comment> \<open>the scratch directory is not \<open>archive\<close>, so its removal leaves the outputs\<close>
  have tmp: "tmp \<noteq> ''archive''"
  proof
    assume "tmp = ''archive''"
    then have "?pb = ?ab" by (simp add: join_archive)
    with r1(3) b5 show False by simp
  qed
  have keep: "file_at w' (''archive/'' @ n) = file_at w6 (''archive/'' @ n)"
    if "CHR ''/'' \<notin> set n" for n
    using below_archive [OF _ that, of tmp] tmp by (auto simp: s7 rmtree_def)
  show "file_at w' (''archive/'' @ ?tn) =
          Some (TarGz [(?bn, ?B), (?ln, ?Lm), (''README.txt'', ?R)])"
    using keep [OF ns(3)] o6 o5 by (simp add: join_archive)
  show "file_at w' ?ab = Some ?B"
    using keep [OF ns(1)] b6 by simp
  show "file_at w' ?al = Some ?Lm"
    using keep [OF ns(2)] l6 by simp
  show "file_at w' ''archive/README.txt'' = Some ?R"
    using keep [OF rs] r6 by simp
qed

text \<open>
  A run returns only where \<open>archive/\<close> does not yet hold a base mesh of that name, and it
  leaves one there: a second run with the same dimensions in the same working directory
  raises (in \<open>shutil.move\<close>) instead of overwriting the files of the first.
\<close>

lemma returns_only_if_base_absent:
  assumes run: "MyBaseController_default be tmp pa w = Inr w'"
    and L: "arg_length pa = Some L" and W: "arg_width pa = Some W"
    and H: "arg_height pa = Some H"
    and fmt: "\<And>r. CHR ''/'' \<notin> set (float_str be r)"
  shows "file_at w (''archive/'' @ base_stl_name be L W H) = None"
proof -
  let ?bn = "base_stl_name be L W H" and ?ln = "lid_stl_name be L W H"
    and ?tn = "tar_gz_name be L W H"
  let ?pb = "os_path_join tmp ?bn" and ?pl = "os_path_join tmp ?ln"
    and ?pr = "os_path_join tmp ''README.txt''"
  let ?out = "os_path_join ''archive'' ?tn"
  let ?ab = "''archive/'' @ ?bn"
  note ns = names_no_slash [of be L W H, OF fmt]
  from default_steps [OF run L W H] obtain w1 w2 w3 w4 w5 w6 where
    s1: "mkdtemp tmp w = Inr w1" and
    s2: "create_full_box_with_lid be tmp L W H (arg_thickness pa) (arg_overlap pa)
             (arg_lid_height pa) w1 = Inr w2" and
    s3: "open_w ?pr (Text (fstring be (readme_pieces L W H (arg_thickness pa) (arg_overlap pa)
                                  (arg_lid_height pa)))) w2 = Inr w3" and
    s4: "(if \<not> os_path_exists w3 ''archive'' then os_makedirs ''archive'' w3 else Inr w3)
             = Inr w4" and
    s5: "create_tar_gz be ?out [?pb, ?pl, ?pr] w4 = Inr w5" and
    s6: "move_each [?pb, ?pl, ?pr] ''archive'' w5 = Inr w6"
    by blast
  have f1: "file_at w1 = file_at w"
    using s1 by (auto simp: mkdtemp_def Let_def split: if_splits)
  have notin: "?out \<notin> set [?pb, ?pl, ?pr]"
    using tar_path_not_scratch [of "''archive''" be L W H tmp] by simp
  have f4: "file_at w4 = file_at w3"
    using s4 by (auto simp: os_makedirs_def split: if_splits)
  have keep: "file_at w5 q \<noteq> None" if "file_at w q \<noteq> None" for q
    using that
    by (simp add: create_tar_gz_Inr(1) [OF s5 notin] f4 open_w_Inr(1) [OF s3]
          create_full_box_with_lid_Inr [OF s2] f1)
  have "os_path_dirname ?out = ''archive''"
    using dirname_archive [OF ns(3)] by (simp add: join_archive)
  with create_tar_gz_Inr(3) [OF s5 notin] have "''archive'' \<in> dirs w4" by simp
  then have a5: "''archive'' \<in> dirs w5"
    by (simp add: create_tar_gz_Inr(1) [OF s5 notin])
  from s6 obtain wa where m1: "shutil_move ?pb ''archive'' w5 = Inr wa"
    by (auto simp: bindE_Inr)
  have "os_path_basename ?pb = ?bn" using basename_join [OF ns(1)] by simp
  with move_result(3) [OF m1 a5] have "file_at w5 ?ab = None"
    by (simp add: join_archive)
  with keep [of ?ab] show ?thesis by blast
qed

lemma rerun_does_not_return:
  assumes "MyBaseController_default be tmp pa w = Inr w'"
    and "arg_length pa = Some L" and "arg_width pa = Some W" and "arg_height pa = Some H"
    and "\<And>r. CHR ''/'' \<notin> set (float_str be r)"
  shows "MyBaseController_default be tmp2 pa w' \<noteq> Inr w''"
proof
  assume "MyBaseController_default be tmp2 pa w' = Inr w''"
  from returns_only_if_base_absent [OF this assms(2-5)]
  have "file_at w' (''archive/'' @ base_stl_name be L W H) = None" .
  with default_outputs(2) [OF assms] show False by simp
qed

lemma default_succeeds:
  assumes L: "arg_length pa = Some L" and W: "arg_width pa = Some W"
    and H: "arg_height pa = Some H"
    and fmt: "\<And>r. CHR ''/'' \<notin> set (float_str be r)"
    and eng: "\<And>a b. \<not> boolean_fails be a b"
    and tmp: "tmp \<noteq> []" "hd tmp = CHR ''/''" "last tmp \<noteq> CHR ''/''"
    and fresh: "\<not> os_path_exists w tmp" "os_path_dirname tmp \<in> dirs w"
    and nodirs: "os_path_join tmp (base_stl_name be L W H) \<notin> dirs w"
      "os_path_join tmp (lid_stl_name be L W H) \<notin> dirs w"
      "os_path_join tmp ''README.txt'' \<notin> dirs w"
    and arch: "file_at w ''archive'' = None"
      "''archive/'' @ tar_gz_name be L W H \<notin> dirs w"
      "\<not> os_path_exists w (''archive/'' @ base_stl_name be L W H)"
      "\<not> os_path_exists w (''archive/'' @ lid_stl_name be L W H)"
      "\<not> os_path_exists w ''archive/README.txt''"
  shows "\<exists>w'. MyBaseController_default be tmp pa w = Inr w'"
proof -
  let ?bn = "base_stl_name be L W H" and ?ln = "lid_stl_name be L W H"
    and ?tn = "tar_gz_name be L W H"
  let ?pb = "os_path_join tmp ?bn" and ?pl = "os_path_join tmp ?ln"
    and ?pr = "os_path_join tmp ''README.txt''"
  let ?out = "os_path_join ''archive'' ?tn"
  let ?ab = "''archive/'' @ ?bn" and ?al = "''archive/'' @ ?ln"
  let ?R = "Text (fstring be (readme_pieces L W H (arg_thickness pa) (arg_overlap pa)
                    (arg_lid_height pa)))"
  note ns = names_no_slash [of be L W H, OF fmt]
  have rs: "CHR ''/'' \<notin> set ''README.txt''" by simp
  note d = scratch_paths_distinct [of tmp be L W H]
  note o = tar_path_not_scratch [of "''archive''" be L W H tmp]
  note na = abs_ne_archive [OF tmp(1,2)]
  have out: "?out = ''archive/'' @ ?tn" by (simp add: join_archive)
  have dn: "os_path_dirname ?pb = tmp" "os_path_dirname ?pl = tmp" "os_path_dirname ?pr = tmp"
    using dirname_join [OF tmp(1,3)] ns rs by blast+
  have ne: "?pb \<noteq> tmp" "?pl \<noteq> tmp" "?pr \<noteq> tmp"
    using join_scratch [OF tmp(1,3)] ns rs by auto
  have bs: "os_path_basename ?pb = ?bn" "os_path_basename ?pl = ?ln"
    "os_path_basename ?pr = ''README.txt''"
    using basename_join [OF ns(1)] basename_join [OF ns(2)] basename_join [OF rs] by simp_all
  \<comment> \<open>the scratch directory\<close>
  define w1 where "w1 = w\<lparr>dirs := insert tmp (dirs w)\<rparr>"
  have s1: "mkdtemp tmp w = Inr w1"
    using fresh by (simp add: mkdtemp_def w1_def)
  have f1: "file_at w1 = file_at w" and d1: "dirs w1 = insert tmp (dirs w)"
    by (simp_all add: w1_def)
  have t1: "file_at w1 tmp = None" using fresh(1) by (simp add: f1 os_path_exists_def)
  \<comment> \<open>the two meshes\<close>
  have "\<exists>w2. create_full_box_with_lid be tmp L W H (arg_thickness pa) (arg_overlap pa)
             (arg_lid_height pa) w1 = Inr w2"
    using eng nodirs(1,2) ne dn t1
    by (intro create_full_box_with_lid_ok) (auto simp: d1)
  then obtain w2 where s2: "create_full_box_with_lid be tmp L W H (arg_thickness pa)
             (arg_overlap pa) (arg_lid_height pa) w1 = Inr w2" ..
  have f2: "file_at w2 = (file_at w)(?pb \<mapsto> Stl (box_base L W H (arg_thickness pa)),
              ?pl \<mapsto> Stl (box_lid L W H (arg_thickness pa) (arg_overlap pa) (arg_lid_height pa)))"
    and d2: "dirs w2 = insert tmp (dirs w)"
    by (simp_all add: create_full_box_with_lid_Inr [OF s2] box_base_def box_lid_def f1 d1)
  \<comment> \<open>the manifest\<close>
  define w3 where "w3 = w2\<lparr>file_at := (file_at w2)(?pr \<mapsto> ?R)\<rparr>"
  have s3: "open_w ?pr ?R w2 = Inr w3"
    unfolding w3_def using nodirs(3) ne dn(3) t1
    by (intro open_w_ok [where d = tmp]) (auto simp: d2 f2 f1)
  have f3: "file_at w3 = (file_at w2)(?pr \<mapsto> ?R)" and d3: "dirs w3 = insert tmp (dirs w)"
    by (simp_all add: w3_def d2)
  have a3: "file_at w3 ''archive'' = None"
    using arch(1) na(2) [THEN not_sym] by (simp add: f3 f2)
  \<comment> \<open>the archive directory\<close>
  define w4 where "w4 = w3\<lparr>dirs := insert ''archive'' (dirs w3)\<rparr>"
  have s4: "(if \<not> os_path_exists w3 ''archive'' then os_makedirs ''archive'' w3 else Inr w3)
             = Inr w4"
  proof (cases "os_path_exists w3 ''archive''")
    case True
    with a3 have "''archive'' \<in> dirs w3" by (simp add: os_path_exists_def)
    then have "insert ''archive'' (dirs w3) = dirs w3" by auto
    with True show ?thesis by (simp add: w4_def)
  next
    case False
    then show ?thesis by (simp add: os_makedirs_def w4_def)
  qed
  have f4: "file_at w4 = file_at w3"
    and d4: "dirs w4 = insert ''archive'' (insert tmp (dirs w))"
    by (simp_all add: w4_def d3)
  have b4: "file_at w4 ?pb \<noteq> None" and l4: "file_at w4 ?pl \<noteq> None"
    and r4: "file_at w4 ?pr \<noteq> None"
    by (simp_all add: f4 f3 f2)
  \<comment> \<open>the archive\<close>
  have "\<exists>w5. create_tar_gz be ?out [?pb, ?pl, ?pr] w4 = Inr w5"
  proof (rule create_tar_gz_ok [where d = "''archive''"])
    show "?out \<notin> dirs w4"
      using arch(2) na(3) [of ?tn] by (simp add: d4 out)
    show "os_path_dirname ?out = ''archive''"
      using dirname_archive [OF ns(3)] by (simp add: out)
    show "''archive'' \<in> dirs w4" by (simp add: d4)
    show "file_at w4 ''archive'' = None" using a3 by (simp add: f4)
    show "\<forall>f \<in> set [?pb, ?pl, ?pr]. f \<noteq> ?out \<and> file_at w4 f \<noteq> None"
      using o b4 l4 r4 by auto
  qed
  then obtain w5 where s5: "create_tar_gz be ?out [?pb, ?pl, ?pr] w4 = Inr w5" ..
  have notin: "?out \<notin> set [?pb, ?pl, ?pr]" using o by simp
  have f5: "file_at w5 = (file_at w4)
              (?out \<mapsto> TarGz (map (\<lambda>f. (os_path_basename f, the (file_at w4 f))) [?pb, ?pl, ?pr]))"
    and d5: "dirs w5 = insert ''archive'' (insert tmp (dirs w))"
    by (simp_all add: create_tar_gz_Inr(1) [OF s5 notin] d4)
  have same5: "file_at w5 q = file_at w4 q" if "q \<noteq> ?out" for q
    using that by (simp add: f5)
  \<comment> \<open>the three moves\<close>
  have nb: "?ab \<noteq> ?out" "?al \<noteq> ?out" "''archive/README.txt'' \<noteq> ?out"
    using names_distinct(1-3) [of be L W H] by (simp_all add: out)
  have free4: "\<not> os_path_exists w4 (''archive/'' @ n)"
    if "\<not> os_path_exists w (''archive/'' @ n)" for n
  proof -
    have "''archive/'' @ n \<noteq> ?pb" "''archive/'' @ n \<noteq> ?pl" "''archive/'' @ n \<noteq> ?pr"
      "''archive/'' @ n \<noteq> tmp"
      using na(1) [of ?bn n, THEN not_sym] na(1) [of ?ln n, THEN not_sym]
        na(1) [of "''README.txt''" n, THEN not_sym] na(3) [of n, THEN not_sym]
      by blast+
    moreover have "''archive/'' @ n \<noteq> ''archive''" by simp
    ultimately show ?thesis
      using that by (simp add: os_path_exists_def f4 f3 f2 d4)
  qed
  obtain cb where cb: "file_at w5 ?pb = Some cb"
    using b4 same5 [of ?pb] o by auto
  obtain cl where cl: "file_at w5 ?pl = Some cl"
    using l4 same5 [of ?pl] o by auto
  obtain cr where cr: "file_at w5 ?pr = Some cr"
    using r4 same5 [of ?pr] o by auto
  define wa where "wa = w5\<lparr>file_at := ((file_at w5)(?pb := None))(?ab \<mapsto> cb)\<rparr>"
  have m1: "shutil_move ?pb ''archive'' w5 = Inr wa"
  proof -
    have "\<not> os_path_exists w5 ?ab"
      using free4 [OF arch(3)] same5 [OF nb(1)] by (simp add: os_path_exists_def d5 d4)
    then show ?thesis
      using shutil_move_ok [of "''archive''" w5 ?pb cb] cb
      by (simp add: d5 bs join_archive wa_def)
  qed
  define wb where "wb = wa\<lparr>file_at := ((file_at wa)(?pl := None))(?al \<mapsto> cl)\<rparr>"
  have ab_al: "?ab \<noteq> ?al" by (simp add: base_stl_name_def lid_stl_name_def)
  have m2: "shutil_move ?pl ''archive'' wa = Inr wb"
  proof -
    have "\<not> os_path_exists w5 ?al"
      using free4 [OF arch(4)] same5 [OF nb(2)] by (simp add: os_path_exists_def d5 d4)
    then have "\<not> os_path_exists wa ?al"
      using ab_al by (auto simp: os_path_exists_def wa_def)
    moreover have "file_at wa ?pl = Some cl"
      using cl d(1) na(1) [of ?ln ?bn] by (auto simp: wa_def)
    ultimately show ?thesis
      using shutil_move_ok [of "''archive''" wa ?pl cl]
      by (simp add: d5 bs join_archive wb_def wa_def)
  qed
  define wc where
    "wc = wb\<lparr>file_at := ((file_at wb)(?pr := None))(''archive/README.txt'' \<mapsto> cr)\<rparr>"
  have m3: "shutil_move ?pr ''archive'' wb = Inr wc"
  proof -
    have "\<not> os_path_exists w5 ''archive/README.txt''"
      using free4 [of "''README.txt''"] arch(5) same5 [OF nb(3)]
      by (simp add: os_path_exists_def d5 d4)
    moreover have "''archive/README.txt'' \<noteq> ?ab" "''archive/README.txt'' \<noteq> ?al"
      by (simp_all add: base_stl_name_def lid_stl_name_def)
    ultimately have "\<not> os_path_exists wb ''archive/README.txt''"
      by (auto simp: os_path_exists_def wb_def wa_def)
    moreover have "file_at wb ?pr = Some cr"
      using cr d(2,3) na(1) [of "''README.txt''" ?bn] na(1) [of "''README.txt''" ?ln]
      by (auto simp: wb_def wa_def)
    ultimately show ?thesis
      using shutil_move_ok [of "''archive''" wb ?pr cr]
      by (simp add: d5 bs join_archive wc_def wb_def wa_def)
  qed
  have s6: "move_each [?pb, ?pl, ?pr] ''archive'' w5 = Inr wc"
    by (simp add: bindE_def m1 m2 m3)
  have "default_body be tmp L W H (arg_thickness pa) (arg_overlap pa) (arg_lid_height pa) w1
          = Inr wc"
    unfolding default_body_names
    by (simp only: s2 s3 s4 s5 s6 bindE_Inr_left)
  with s1 have "MyBaseController_default be tmp pa w = Inr (rmtree tmp wc)"
    unfolding default_unfold [OF L W H] with_TemporaryDirectory_Inr by blast
  then show ?thesis ..
qed

lemma demo_no_slash: "CHR ''/'' \<notin> set (float_str demo_backend r)"
  by (simp add: demo_backend_def demo_float_str_def)

lemma demo_default:
  "\<exists>w'. MyBaseController_default demo_backend ''/tmp/tmpbox''
          (parse_args (Some 100) (Some 80) (Some 50) None None None) demo_world = Inr w'"
  by (rule default_succeeds [where L = 100 and W = 80 and H = 50])
     (simp_all add: parse_args_def demo_backend_def demo_float_str_def demo_world_def
        os_path_exists_def os_path_dirname_def os_path_join_def base_stl_name_def
        lid_stl_name_def tar_gz_name_def)

lemma demo_args:
  "arg_length (parse_args (Some 100) (Some 80) (Some 50) None None None) = Some 100"
  "arg_width (parse_args (Some 100) (Some 80) (Some 50) None None None) = Some 80"
  "arg_height (parse_args (Some 100) (Some 80) (Some 50) None None None) = Some 50"
  "arg_thickness (parse_args (Some 100) (Some 80) (Some 50) None None None) = 2"
  "arg_overlap (parse_args (Some 100) (Some 80) (Some 50) None None None) = 2"
  "arg_lid_height (parse_args (Some 100) (Some 80) (Some 50) None None None) = 5"
  by (simp_all add: parse_args_def)

lemma demo_names:
  "float_str demo_backend 100 = ''100.0''" "float_str demo_backend 80 = ''80.0''"
  "float_str demo_backend 50 = ''50.0''" "float_str demo_backend 2 = ''2.0''"
  "float_str demo_backend 5 = ''5.0''"
  by (simp_all add: demo_backend_def demo_float_str_def)

lemma fstring_cong:
  "float_str be2 = float_str be1 \<Longrightarrow> fstring be2 ps = fstring be1 ps"
  by (induction be2 ps rule: fstring.induct) simp_all

subsection \<open>What a run can change, whether it returns or raises\<close>

text \<open>
  The world a run leaves when it raises is the world at the exception, after the cleanup
  of the scratch directory. Whatever the outcome, \<open>archive/README.txt\<close> is then the manifest
  of this run or what it was before, and the archive holds the manifest of this run as its
  \<open>README.txt\<close> or is the file it was before.
\<close>

lemma final_world_simps:
  "final_world (Inr w) = w" "final_world (Inl (e, w)) = w"
  by (simp_all add: final_world_def)

lemma final_bindE:
  "final_world (bindE r f) = (case r of Inl (e, w) \<Rightarrow> w | Inr x \<Rightarrow> final_world (f x))"
  by (cases r) (auto simp: bindE_def final_world_def)

lemma final_with:
  "final_world (with_TemporaryDirectory tmp body w) =
     (case mkdtemp tmp w of Inl (e, wx) \<Rightarrow> wx | Inr w1 \<Rightarrow> rmtree tmp (final_world (body w1)))"
  by (auto simp: with_TemporaryDirectory_def bindE_def final_world_def split: sum.splits)

lemma mkdtemp_cases:
  "(\<exists>e. mkdtemp d w = Inl (e, w)) \<or> mkdtemp d w = Inr (w\<lparr>dirs := insert d (dirs w)\<rparr>)"
  by (simp add: mkdtemp_def Let_def)

lemma open_w_cases:
  "(\<exists>e. open_w p c w = Inl (e, w)) \<or> open_w p c w = Inr (w\<lparr>file_at := (file_at w)(p \<mapsto> c)\<rparr>)"
  by (simp add: open_w_def Let_def)

lemma makedirs_frame:
  "file_at (final_world (if \<not> os_path_exists w p then os_makedirs p w else Inr w)) = file_at w"
  by (simp add: os_makedirs_def final_world_def)

lemma create_full_frame:
  assumes "q \<noteq> os_path_join tmp (base_stl_name be L W H)"
    and "q \<noteq> os_path_join tmp (lid_stl_name be L W H)"
  shows "file_at (final_world (create_full_box_with_lid be tmp L W H T Ov LH w)) q = file_at w q"
  using assms
  unfolding create_full_box_with_lid_def Let_def base_name_fstring lid_name_fstring
  by (auto simp: bindE_def difference_def export_def open_w_def final_world_def print_def
        Let_def split: sum.splits if_splits)

lemma create_tar_gz_Inl:
  assumes "create_tar_gz be out fs w = Inl (e, wx)"
    and "\<forall>f \<in> set fs. f \<noteq> out \<and> file_at w f \<noteq> None"
  shows "wx = w"
proof -
  from open_w_cases [of out "TarGz []" w] show ?thesis
  proof
    assume "\<exists>e. open_w out (TarGz []) w = Inl (e, w)"
    with assms(1) show ?thesis
      by (auto simp: create_tar_gz_def tarfile_open_def bindE_def)
  next
    let ?w1 = "w\<lparr>file_at := (file_at w)(out \<mapsto> TarGz [])\<rparr>"
    assume op: "open_w out (TarGz []) w = Inr ?w1"
    have "\<forall>f \<in> set fs. f \<noteq> out \<and> file_at ?w1 f \<noteq> None"
      using assms(2) by auto
    moreover have "file_at ?w1 out = Some (TarGz [])" by simp
    ultimately obtain w2 where "tar_add_each out fs ?w1 = Inr w2"
      using tar_add_each_ok by blast
    with op assms(1) show ?thesis
      by (simp add: create_tar_gz_def tarfile_open_def bindE_def)
  qed
qed

lemma shutil_move_frame:
  assumes "q \<noteq> src" and "q \<noteq> dst"
  shows "q \<noteq> os_path_join dst (os_path_basename src) \<Longrightarrow>
           file_at (final_world (shutil_move src dst w)) q = file_at w q"
    and "file_at (final_world (shutil_move src dst w)) q = file_at w q \<or>
         file_at (final_world (shutil_move src dst w)) q = file_at w src"
  using assms
  by (auto simp: shutil_move_def os_rename_def final_world_def Let_def split: option.splits)

lemma rmtree_frame: "\<not> below d q \<Longrightarrow> file_at (rmtree d w) q = file_at w q"
  by (simp add: rmtree_def)

lemma abs_not_below_archive:
  assumes "tmp \<noteq> []" and "hd tmp = CHR ''/''"
  shows "\<not> below tmp (''archive/'' @ n)"
  using assms by (cases tmp) (auto simp: below_def)

lemma moves_frame:
  fixes L W H :: real
  assumes tmp: "tmp \<noteq> []" "hd tmp = CHR ''/''"
    and fmt: "\<And>r. CHR ''/'' \<notin> set (float_str be r)"
    and pr: "file_at w (os_path_join tmp ''README.txt'') = R"
  defines "wz \<equiv> final_world (move_each
             [os_path_join tmp (base_stl_name be L W H),
              os_path_join tmp (lid_stl_name be L W H),
              os_path_join tmp ''README.txt''] ''archive'' w)"
  shows "file_at wz (''archive/'' @ tar_gz_name be L W H) =
           file_at w (''archive/'' @ tar_gz_name be L W H)"
    and "file_at wz ''archive/README.txt'' = R \<or>
         file_at wz ''archive/README.txt'' = file_at w ''archive/README.txt''"
proof -
  let ?bn = "base_stl_name be L W H" and ?ln = "lid_stl_name be L W H"
    and ?tn = "tar_gz_name be L W H"
  let ?pb = "os_path_join tmp ?bn" and ?pl = "os_path_join tmp ?ln"
    and ?pr = "os_path_join tmp ''README.txt''"
  let ?out = "''archive/'' @ ?tn" and ?ar = "''archive/README.txt''"
  note ns = names_no_slash [of be L W H, OF fmt]
  have rs: "CHR ''/'' \<notin> set ''README.txt''" by simp
  note na = abs_ne_archive [OF tmp]
  note d = scratch_paths_distinct [of tmp be L W H]
  have bs: "os_path_basename ?pb = ?bn" "os_path_basename ?pl = ?ln"
    "os_path_basename ?pr = ''README.txt''"
    using basename_join [OF ns(1)] basename_join [OF ns(2)] basename_join [OF rs] by simp_all
  note nd = names_distinct [of be L W H]
  have t: "os_path_join ''archive'' (os_path_basename ?pb) = ''archive/'' @ ?bn"
    "os_path_join ''archive'' (os_path_basename ?pl) = ''archive/'' @ ?ln"
    "os_path_join ''archive'' (os_path_basename ?pr) = ?ar"
    by (simp_all add: bs join_archive)
  \<comment> \<open>paths that no move reads or writes\<close>
  have out1: "?out \<noteq> ?pb" "?out \<noteq> ?pl" "?out \<noteq> ?pr"
    using na(1) [of ?bn ?tn, THEN not_sym] na(1) [of ?ln ?tn, THEN not_sym]
      na(1) [of "''README.txt''" ?tn, THEN not_sym]
    by blast+
  have out2: "?out \<noteq> ''archive''"
    "?out \<noteq> ''archive/'' @ ?bn" "?out \<noteq> ''archive/'' @ ?ln" "?out \<noteq> ?ar"
    using nd by auto
  have ar1: "?ar \<noteq> ?pb" "?ar \<noteq> ?pl" "?ar \<noteq> ?pr"
    using na(1) [of ?bn "''README.txt''", THEN not_sym]
      na(1) [of ?ln "''README.txt''", THEN not_sym]
      na(1) [of "''README.txt''" "''README.txt''", THEN not_sym]
    by simp_all
  have ar2: "?ar \<noteq> ''archive''"
    "?ar \<noteq> ''archive/'' @ ?bn" "?ar \<noteq> ''archive/'' @ ?ln"
    by (simp_all add: base_stl_name_def lid_stl_name_def)
  have pr1: "?pr \<noteq> ?pb" "?pr \<noteq> ?pl" "?pr \<noteq> ''archive''"
    "?pr \<noteq> ''archive/'' @ ?bn" "?pr \<noteq> ''archive/'' @ ?ln"
    using d(2,3) [THEN not_sym] na(1) [of "''README.txt''" ?bn] na(1) [of "''README.txt''" ?ln]
      na(2) [of "''README.txt''"]
    by blast+
  \<comment> \<open>the moves, one after the other\<close>
  let ?r1 = "shutil_move ?pb ''archive'' w"
  have wz: "wz = (case ?r1 of Inl (e, wx) \<Rightarrow> wx
                | Inr wa \<Rightarrow> (case shutil_move ?pl ''archive'' wa of Inl (e, wx) \<Rightarrow> wx
                   | Inr wb \<Rightarrow> final_world (shutil_move ?pr ''archive'' wb)))"
    unfolding wz_def
    by (simp add: final_bindE bindE_def final_world_def split: sum.splits)
  show "file_at wz ?out = file_at w ?out"
  proof (cases ?r1)
    case (Inl ew)
    with shutil_move_frame(1) [of ?out ?pb "''archive''" w] out1 out2 t show ?thesis
      by (cases ew) (simp add: wz final_world_def)
  next
    case (Inr wa)
    with shutil_move_frame(1) [of ?out ?pb "''archive''" w] out1 out2 t
    have a: "file_at wa ?out = file_at w ?out" by (simp add: final_world_def)
    show ?thesis
    proof (cases "shutil_move ?pl ''archive'' wa")
      case (Inl ew)
      with shutil_move_frame(1) [of ?out ?pl "''archive''" wa] out1 out2 t a Inr show ?thesis
        by (cases ew) (simp add: wz final_world_def)
    next
      case (Inr wb)
      with shutil_move_frame(1) [of ?out ?pl "''archive''" wa] out1 out2 t a
      have b: "file_at wb ?out = file_at w ?out" by (simp add: final_world_def)
      from shutil_move_frame(1) [of ?out ?pr "''archive''" wb] out1 out2 t b
      have "file_at (final_world (shutil_move ?pr ''archive'' wb)) ?out = file_at w ?out"
        by simp
      with Inr \<open>?r1 = Inr wa\<close> show ?thesis by (simp add: wz)
    qed
  qed
  show "file_at wz ?ar = R \<or> file_at wz ?ar = file_at w ?ar"
  proof (cases ?r1)
    case (Inl ew)
    with shutil_move_frame(1) [of ?ar ?pb "''archive''" w] ar1 ar2 t show ?thesis
      by (cases ew) (simp add: wz final_world_def)
  next
    case (Inr wa)
    with shutil_move_frame(1) [of ?ar ?pb "''archive''" w] ar1 ar2 t
    have a: "file_at wa ?ar = file_at w ?ar" by (simp add: final_world_def)
    from Inr shutil_move_frame(1) [of ?pr ?pb "''archive''" w] pr1 t pr
    have pa: "file_at wa ?pr = R" by (simp add: final_world_def)
    show ?thesis
    proof (cases "shutil_move ?pl ''archive'' wa")
      case (Inl ew)
      with shutil_move_frame(1) [of ?ar ?pl "''archive''" wa] ar1 ar2 t a Inr show ?thesis
        by (cases ew) (simp add: wz final_world_def)
    next
      case (Inr wb)
      with shutil_move_frame(1) [of ?ar ?pl "''archive''" wa] ar1 ar2 t a
      have b: "file_at wb ?ar = file_at w ?ar" by (simp add: final_world_def)
      from Inr shutil_move_frame(1) [of ?pr ?pl "''archive''" wa] pr1 t pa
      have pb: "file_at wb ?pr = R" by (simp add: final_world_def)
      from shutil_move_frame(2) [of ?ar ?pr "''archive''" wb] ar1 ar2 b pb
      have "file_at (final_world (shutil_move ?pr ''archive'' wb)) ?ar = file_at w ?ar \<or>
            file_at (final_world (shutil_move ?pr ''archive'' wb)) ?ar = R"
        by simp
      with Inr \<open>?r1 = Inr wa\<close> show ?thesis by (auto simp: wz)
    qed
  qed
qed

lemma body_frame:
  fixes L W H T Ov LH :: real and w :: world
  assumes tmp: "tmp \<noteq> []" "hd tmp = CHR ''/''"
    and fmt: "\<And>r. CHR ''/'' \<notin> set (float_str be r)"
  defines "wz \<equiv> final_world (default_body be tmp L W H T Ov LH w)"
    and "M \<equiv> Some (Text (manifest_text be L W H T Ov LH))"
  shows "file_at wz ''archive/README.txt'' = M \<or>
         file_at wz ''archive/README.txt'' = file_at w ''archive/README.txt''"
    and "archive_member wz (''archive/'' @ tar_gz_name be L W H) ''README.txt'' = M \<or>
         file_at wz (''archive/'' @ tar_gz_name be L W H) =
           file_at w (''archive/'' @ tar_gz_name be L W H)"
proof -
  let ?bn = "base_stl_name be L W H" and ?ln = "lid_stl_name be L W H"
    and ?tn = "tar_gz_name be L W H"
  let ?pb = "os_path_join tmp ?bn" and ?pl = "os_path_join tmp ?ln"
    and ?pr = "os_path_join tmp ''README.txt''"
  let ?ar = "''archive/README.txt''"
  define out where "out = ''archive/'' @ ?tn"
  let ?R = "Text (fstring be (readme_pieces L W H T Ov LH))"
  let ?fs = "[?pb, ?pl, ?pr]"
  have M: "M = Some ?R" by (simp add: M_def manifest_text_def)
  note ns = names_no_slash [of be L W H, OF fmt]
  have rs: "CHR ''/'' \<notin> set ''README.txt''" by simp
  note na = abs_ne_archive [OF tmp]
  note d = scratch_paths_distinct [of tmp be L W H]
  note o = tar_path_not_scratch [of "''archive''" be L W H tmp, unfolded join_archive,
      folded out_def]
  have bs: "os_path_basename ?pb = ?bn" "os_path_basename ?pl = ?ln"
    "os_path_basename ?pr = ''README.txt''"
    using basename_join [OF ns(1)] basename_join [OF ns(2)] basename_join [OF rs] by simp_all
  have ar1: "?ar \<noteq> ?pb" "?ar \<noteq> ?pl" "?ar \<noteq> ?pr"
    using na(1) [of ?bn "''README.txt''", THEN not_sym]
      na(1) [of ?ln "''README.txt''", THEN not_sym]
      na(1) [of "''README.txt''" "''README.txt''", THEN not_sym]
    by simp_all
  have ar_out: "?ar \<noteq> out"
    using names_distinct(3) [of be L W H] by (auto simp: out_def)
  have rn: "?bn \<noteq> ''README.txt''" "?ln \<noteq> ''README.txt''"
    by (simp_all add: base_stl_name_def lid_stl_name_def)
  let ?r2 = "create_full_box_with_lid be tmp L W H T Ov LH w"
  have fr2: "file_at (final_world ?r2) ?ar = file_at w ?ar"
    "file_at (final_world ?r2) out = file_at w out"
    using create_full_frame [of ?ar tmp be L W H T Ov LH w]
      create_full_frame [of out tmp be L W H T Ov LH w] ar1 o by simp_all
  have wz: "wz = (case ?r2 of Inl (e, wx) \<Rightarrow> wx | Inr w2 \<Rightarrow>
              final_world (bindE (open_w ?pr ?R w2) (\<lambda>w.
                bindE (if \<not> os_path_exists w ''archive'' then os_makedirs ''archive'' w
                       else Inr w) (\<lambda>w.
                bindE (create_tar_gz be out ?fs w) (move_each ?fs ''archive'')))))"
    unfolding wz_def default_body_names join_archive out_def [symmetric]
    by (subst final_bindE) (rule refl)
  have "(file_at wz ?ar = M \<or> file_at wz ?ar = file_at w ?ar) \<and>
        (archive_member wz out ''README.txt'' = M \<or> file_at wz out = file_at w out)"
  proof (cases ?r2)
    case (Inl ew)
    then have "wz = final_world ?r2" by (cases ew) (simp add: wz final_world_def)
    with fr2 show ?thesis by simp
  next
    case (Inr w2)
    then have a2: "file_at w2 ?ar = file_at w ?ar" and o2: "file_at w2 out = file_at w out"
      using fr2 by (simp_all add: final_world_def)
    from create_full_box_with_lid_Inr [OF Inr] d
    have b2: "file_at w2 ?pb \<noteq> None" and l2: "file_at w2 ?pl \<noteq> None"
      by simp_all
    let ?w3 = "w2\<lparr>file_at := (file_at w2)(?pr \<mapsto> ?R)\<rparr>"
    from open_w_cases [of ?pr ?R w2] show ?thesis
    proof
      assume "\<exists>e. open_w ?pr ?R w2 = Inl (e, w2)"
      then have "wz = w2" using Inr by (auto simp: wz final_bindE)
      with a2 o2 show ?thesis by simp
    next
      assume op: "open_w ?pr ?R w2 = Inr ?w3"
      let ?r4 = "if \<not> os_path_exists ?w3 ''archive'' then os_makedirs ''archive'' ?w3
                 else Inr ?w3"
      have f4: "file_at (final_world ?r4) = file_at ?w3"
        by (rule makedirs_frame)
      have wz4: "wz = (case ?r4 of Inl (e, wx) \<Rightarrow> wx | Inr w4 \<Rightarrow>
                   final_world (bindE (create_tar_gz be out ?fs w4) (move_each ?fs ''archive'')))"
        using Inr op by (simp add: wz final_bindE bindE_Inr_left)
      show ?thesis
      proof (cases ?r4)
        case (Inl ew)
        then have "wz = final_world ?r4" by (cases ew) (simp add: wz4 final_world_def)
        with f4 a2 o2 ar1 o show ?thesis by simp
      next
        case r4: (Inr w4)
        with f4 have f4': "file_at w4 = file_at ?w3" by (simp add: final_world_def)
        have ex4: "\<forall>f \<in> set ?fs. f \<noteq> out \<and> file_at w4 f \<noteq> None"
          using b2 l2 d o by (auto simp: f4')
        have notin: "out \<notin> set ?fs" using o by simp
        have wz5: "wz = final_world (bindE (create_tar_gz be out ?fs w4)
                                       (move_each ?fs ''archive''))"
          using r4 by (simp add: wz4)
        show ?thesis
        proof (cases "create_tar_gz be out ?fs w4")
          case (Inl ew)
          obtain e wx where ew: "ew = (e, wx)" by (cases ew)
          with Inl create_tar_gz_Inl [OF _ ex4] have "wx = w4" by blast
          with Inl ew have "wz = w4" by (simp add: wz5 final_bindE)
          with f4' a2 o2 ar1 o show ?thesis by simp
        next
          case r5: (Inr w5)
          have f5: "file_at w5 = (file_at w4)
              (out \<mapsto> TarGz (map (\<lambda>f. (os_path_basename f, the (file_at w4 f))) ?fs))"
            by (simp add: create_tar_gz_Inr(1) [OF r5 notin])
          have r: "file_at w5 ?pr = Some ?R"
            using o by (simp add: f5 f4')
          have m5: "archive_member w5 out ''README.txt'' = Some ?R"
            using rn by (simp add: archive_member_def f5 bs f4')
          have a5: "file_at w5 ?ar = file_at w ?ar"
            using ar_out ar1 a2 by (simp add: f5 f4')
          have wz6: "wz = final_world (move_each ?fs ''archive'' w5)"
            using r5 by (simp add: wz5 final_bindE)
          from moves_frame [OF tmp fmt r, of L W H, folded out_def]
          have "file_at wz out = file_at w5 out"
            and "file_at wz ?ar = Some ?R \<or> file_at wz ?ar = file_at w5 ?ar"
            unfolding wz6 by blast+
          with m5 a5 show ?thesis
            by (auto simp: M archive_member_def)
        qed
      qed
    qed
  qed
  then show "file_at wz ?ar = M \<or> file_at wz ?ar = file_at w ?ar"
    and "archive_member wz (''archive/'' @ ?tn) ''README.txt'' = M \<or>
         file_at wz (''archive/'' @ ?tn) = file_at w (''archive/'' @ ?tn)"
    unfolding out_def by blast+
qed

lemma run_frame:
  fixes w :: world
  assumes L: "arg_length pa = Some L" and W: "arg_width pa = Some W"
    and H: "arg_height pa = Some H"
    and tmp: "tmp \<noteq> []" "hd tmp = CHR ''/''"
    and fmt: "\<And>r. CHR ''/'' \<notin> set (float_str be r)"
  defines "wz \<equiv> final_world (MyBaseController_default be tmp pa w)"
    and "M \<equiv> Some (Text (manifest_text be L W H (arg_thickness pa) (arg_overlap pa)
                             (arg_lid_height pa)))"
  shows "file_at wz ''archive/README.txt'' = M \<or>
         file_at wz ''archive/README.txt'' = file_at w ''archive/README.txt''"
    and "archive_member wz (''archive/'' @ tar_gz_name be L W H) ''README.txt'' = M \<or>
         file_at wz (''archive/'' @ tar_gz_name be L W H) =
           file_at w (''archive/'' @ tar_gz_name be L W H)"
proof -
  let ?out = "''archive/'' @ tar_gz_name be L W H" and ?ar = "''archive/README.txt''"
  let ?body = "default_body be tmp L W H (arg_thickness pa) (arg_overlap pa) (arg_lid_height pa)"
  have wz: "wz = (case mkdtemp tmp w of Inl (e, wx) \<Rightarrow> wx
                 | Inr w1 \<Rightarrow> rmtree tmp (final_world (?body w1)))"
    unfolding wz_def default_unfold [OF L W H] final_with ..
  have nb: "\<not> below tmp ?out" "\<not> below tmp ?ar"
    using abs_not_below_archive [OF tmp, of "tar_gz_name be L W H"]
      abs_not_below_archive [OF tmp, of "''README.txt''"] by simp_all
  have "(file_at wz ?ar = M \<or> file_at wz ?ar = file_at w ?ar) \<and>
        (archive_member wz ?out ''README.txt'' = M \<or> file_at wz ?out = file_at w ?out)"
    using mkdtemp_cases [of tmp w]
  proof
    assume "\<exists>e. mkdtemp tmp w = Inl (e, w)"
    then have "wz = w" by (auto simp: wz)
    then show ?thesis by simp
  next
    let ?w1 = "w\<lparr>dirs := insert tmp (dirs w)\<rparr>"
    assume "mkdtemp tmp w = Inr ?w1"
    then have "wz = rmtree tmp (final_world (?body ?w1))" by (simp add: wz)
    then have k: "file_at wz ?ar = file_at (final_world (?body ?w1)) ?ar"
      "file_at wz ?out = file_at (final_world (?body ?w1)) ?out"
      using nb by (simp_all add: rmtree_frame)
    then have km: "archive_member wz ?out ''README.txt'' =
                   archive_member (final_world (?body ?w1)) ?out ''README.txt''"
      by (simp add: archive_member_def)
    from body_frame [OF tmp fmt, of L W H "arg_thickness pa" "arg_overlap pa"
        "arg_lid_height pa" ?w1] show ?thesis
      unfolding k km M_def by simp
  qed
  then show "file_at wz ?ar = M \<or> file_at wz ?ar = file_at w ?ar"
    and "archive_member wz ?out ''README.txt'' = M \<or> file_at wz ?out = file_at w ?out"
    by blast+
qed

subsection \<open>The archive and the manifest\<close>

text \<open>
  C7. For every run that returns with all three dimensions given, the file
  \<open>archive/box_{L}x{W}x{H}.tar.gz\<close> is an archive of exactly three members, in this order:
  \<open>box_base_{L}x{W}x{H}.stl\<close> holding the base mesh, \<open>box_lid_{L}x{W}x{H}.stl\<close> holding the
  lid mesh, and \<open>README.txt\<close> holding the manifest. Each dimension appears in the names as
  the text the f-string gives for the value itself, with nothing added. The one assumption
  on that text is that it has no \<open>/\<close> in it, which holds of Python's float formatting.
\<close>

theorem archive_contents:
  assumes "MyBaseController_default be tmp pa w = Inr w'"
    and "arg_length pa = Some L" and "arg_width pa = Some W" and "arg_height pa = Some H"
    and "\<forall>r. CHR ''/'' \<notin> set (float_str be r)"
  shows "file_at w'
           (''archive/box_'' @ float_str be L @ ''x'' @ float_str be W @ ''x'' @ float_str be H
              @ ''.tar.gz'') =
         Some (TarGz
           [(''box_base_'' @ float_str be L @ ''x'' @ float_str be W @ ''x'' @ float_str be H
               @ ''.stl'',
             Stl (box_base L W H (arg_thickness pa))),
            (''box_lid_'' @ float_str be L @ ''x'' @ float_str be W @ ''x'' @ float_str be H
               @ ''.stl'',
             Stl (box_lid L W H (arg_thickness pa) (arg_overlap pa) (arg_lid_height pa))),
            (''README.txt'',
             Text (manifest_text be L W H (arg_thickness pa) (arg_overlap pa)
                     (arg_lid_height pa)))])"
proof -
  from assms(5) have fmt: "CHR ''/'' \<notin> set (float_str be r)" for r by simp
  from default_outputs(1) [OF assms(1-4) fmt] show ?thesis
    by (simp add: tar_gz_name_def base_stl_name_def lid_stl_name_def)
qed

theorem archive_contents_witness:
  "\<exists>w'. MyBaseController_default demo_backend ''/tmp/tmpbox''
          (parse_args (Some 100) (Some 80) (Some 50) None None None) demo_world = Inr w' \<and>
        file_at w' ''archive/box_100.0x80.0x50.0.tar.gz'' =
          Some (TarGz
            [(''box_base_100.0x80.0x50.0.stl'', Stl (box_base 100 80 50 2)),
             (''box_lid_100.0x80.0x50.0.stl'', Stl (box_lid 100 80 50 2 2 5)),
             (''README.txt'', Text (manifest_text demo_backend 100 80 50 2 2 5))])"
proof -
  from demo_default obtain w' where
    run: "MyBaseController_default demo_backend ''/tmp/tmpbox''
            (parse_args (Some 100) (Some 80) (Some 50) None None None) demo_world = Inr w'" ..
  have fmt: "\<forall>r. CHR ''/'' \<notin> set (float_str demo_backend r)"
    by (simp add: demo_no_slash)
  from archive_contents [OF run demo_args(1-3) fmt] run show ?thesis
    unfolding demo_args demo_names by (intro exI [of _ w']) simp
qed

text \<open>
  C8. The manifest does not record four dimensions and three derived parameters: the
  three \<open>write\<close> calls interpolate six values, at the input
  \<open>(100, 80, 50, 2, 2, 5)\<close> exactly these six.
\<close>

theorem manifest_fields_counterexample:
  "field_values (readme_pieces 100 80 50 2 2 5) = [100, 80, 50, 2, 2, 5] \<and>
   length (field_values (readme_pieces 100 80 50 2 2 5)) \<noteq> 4 + 3"
  by (simp add: readme_pieces_def)

text \<open>
  C8, as the code has it. For every run that returns, \<open>archive/README.txt\<close> holds the
  heading line, a line with the three internal dimensions (length, width, height) and a
  line with the three further parameters as passed in (wall thickness, lid overlap, lid
  height): six values, each of them an argument of the run, none of them computed.
\<close>

theorem manifest_fields:
  assumes "MyBaseController_default be tmp pa w = Inr w'"
    and "arg_length pa = Some L" and "arg_width pa = Some W" and "arg_height pa = Some H"
    and "\<forall>r. CHR ''/'' \<notin> set (float_str be r)"
  shows "file_at w' ''archive/README.txt'' =
           Some (Text (fstring be (readme_pieces L W H (arg_thickness pa) (arg_overlap pa)
                                     (arg_lid_height pa)))) \<and>
         field_values (readme_pieces L W H (arg_thickness pa) (arg_overlap pa)
                         (arg_lid_height pa)) =
           [L, W, H, arg_thickness pa, arg_overlap pa, arg_lid_height pa] \<and>
         fstring be (readme_pieces L W H (arg_thickness pa) (arg_overlap pa)
                       (arg_lid_height pa)) =
           ''Box and Lid STL files created with specified dimensions.\<newline>'' @
           ''Length: '' @ float_str be L @ '', Width: '' @ float_str be W @
           '', Height: '' @ float_str be H @ ''\<newline>'' @
           ''Wall Thickness: '' @ float_str be (arg_thickness pa) @
           '', Lid Overlap: '' @ float_str be (arg_overlap pa) @
           '', Lid Height: '' @ float_str be (arg_lid_height pa) @ ''\<newline>''"
proof -
  from assms(5) have fmt: "CHR ''/'' \<notin> set (float_str be r)" for r by simp
  from default_outputs(4) [OF assms(1-4) fmt] show ?thesis
    by (simp add: manifest_text_def readme_pieces_def)
qed

theorem manifest_fields_witness:
  "\<exists>w'. MyBaseController_default demo_backend ''/tmp/tmpbox''
          (parse_args (Some 100) (Some 80) (Some 50) None None None) demo_world = Inr w' \<and>
        file_at w' ''archive/README.txt'' =
          Some (Text (''Box and Lid STL files created with specified dimensions.\<newline>'' @
                      ''Length: 100.0, Width: 80.0, Height: 50.0\<newline>'' @
                      ''Wall Thickness: 2.0, Lid Overlap: 2.0, Lid Height: 5.0\<newline>''))"
proof -
  from demo_default obtain w' where
    run: "MyBaseController_default demo_backend ''/tmp/tmpbox''
            (parse_args (Some 100) (Some 80) (Some 50) None None None) demo_world = Inr w'" ..
  have fmt: "\<forall>r. CHR ''/'' \<notin> set (float_str demo_backend r)"
    by (simp add: demo_no_slash)
  from manifest_fields [OF run demo_args(1-3) fmt] have
    "file_at w' ''archive/README.txt'' =
       Some (Text (fstring demo_backend (readme_pieces 100 80 50 2 2 5)))"
    unfolding demo_args by blast
  then have "file_at w' ''archive/README.txt'' =
          Some (Text (''Box and Lid STL files created with specified dimensions.\<newline>'' @
                      ''Length: 100.0, Width: 80.0, Height: 50.0\<newline>'' @
                      ''Wall Thickness: 2.0, Lid Overlap: 2.0, Lid Height: 5.0\<newline>''))"
    by (simp add: readme_pieces_def demo_names)
  with run show ?thesis by blast
qed

text \<open>
  C9. The manifest is determined by the six arguments (and the float formatting): two runs
  with the same arguments, the second started in the world the first has left, with any
  scratch directories and boolean engines, and whether they return or raise, leave no
  other manifest. After each run \<open>archive/README.txt\<close> is the text \<open>manifest_text\<close> of the
  arguments or the file that was there before the run, and the archive has this text as its
  \<open>README.txt\<close> member or is the file that was there before the run. If the first run
  returns, both places hold this text after the first run and still hold it after the
  second, which then does not return: it rewrites the archive and raises in \<open>shutil.move\<close>.
  The scratch directories are absolute paths, as \<open>tempfile\<close> gives them.
\<close>

theorem manifest_deterministic:
  fixes w :: world
  assumes "arg_length pa = Some L" and "arg_width pa = Some W" and "arg_height pa = Some H"
    and "float_str be2 = float_str be1"
    and "\<forall>r. CHR ''/'' \<notin> set (float_str be1 r)"
    and "tmp1 \<noteq> [] \<and> hd tmp1 = CHR ''/''" and "tmp2 \<noteq> [] \<and> hd tmp2 = CHR ''/''"
  defines "M \<equiv> Some (Text (manifest_text be1 L W H (arg_thickness pa) (arg_overlap pa)
                             (arg_lid_height pa)))"
    and "out \<equiv> ''archive/'' @ tar_gz_name be1 L W H"
    and "wa \<equiv> final_world (MyBaseController_default be1 tmp1 pa w)"
  defines "wb \<equiv> final_world (MyBaseController_default be2 tmp2 pa wa)"
  shows "(file_at wa ''archive/README.txt'' = M \<or>
          file_at wa ''archive/README.txt'' = file_at w ''archive/README.txt'') \<and>
         (archive_member wa out ''README.txt'' = M \<or> file_at wa out = file_at w out) \<and>
         (file_at wb ''archive/README.txt'' = M \<or>
          file_at wb ''archive/README.txt'' = file_at wa ''archive/README.txt'') \<and>
         (archive_member wb out ''README.txt'' = M \<or> file_at wb out = file_at wa out) \<and>
         ((\<exists>w'. MyBaseController_default be1 tmp1 pa w = Inr w') \<longrightarrow>
            file_at wa ''archive/README.txt'' = M \<and>
            archive_member wa out ''README.txt'' = M \<and>
            file_at wb ''archive/README.txt'' = M \<and>
            archive_member wb out ''README.txt'' = M)"
proof -
  let ?ar = "''archive/README.txt''"
  from assms(5) have fmt1: "CHR ''/'' \<notin> set (float_str be1 r)" for r by simp
  with assms(4) have fmt2: "CHR ''/'' \<notin> set (float_str be2 r)" for r by simp
  have m: "manifest_text be2 L W H T Ov LH = manifest_text be1 L W H T Ov LH" for T Ov LH
    by (simp add: manifest_text_def fstring_cong [OF assms(4)])
  have n: "tar_gz_name be2 L W H = tar_gz_name be1 L W H"
    by (simp add: tar_gz_name_def assms(4))
  have r: "base_stl_name be1 L W H \<noteq> ''README.txt''" "lid_stl_name be1 L W H \<noteq> ''README.txt''"
    by (simp_all add: base_stl_name_def lid_stl_name_def)
  from assms(6) have t1: "tmp1 \<noteq> []" "hd tmp1 = CHR ''/''" by simp_all
  from assms(7) have t2: "tmp2 \<noteq> []" "hd tmp2 = CHR ''/''" by simp_all
  have a1: "file_at wa ?ar = M \<or> file_at wa ?ar = file_at w ?ar"
    and a2: "archive_member wa out ''README.txt'' = M \<or> file_at wa out = file_at w out"
    using run_frame [OF assms(1-3) t1 fmt1, of w] unfolding M_def out_def wa_def by blast+
  have b1: "file_at wb ?ar = M \<or> file_at wb ?ar = file_at wa ?ar"
    and b2: "archive_member wb out ''README.txt'' = M \<or> file_at wb out = file_at wa out"
    using run_frame [OF assms(1-3) t2 fmt2, of wa] unfolding M_def out_def wb_def m n by blast+
  have c: "file_at wa ?ar = M \<and> archive_member wa out ''README.txt'' = M \<and>
           file_at wb ?ar = M \<and> archive_member wb out ''README.txt'' = M"
    if run: "MyBaseController_default be1 tmp1 pa w = Inr w'" for w'
  proof -
    have wa: "wa = w'" by (simp add: wa_def run final_world_def)
    note o = default_outputs [OF run assms(1-3) fmt1]
    have c1: "file_at wa ?ar = M" unfolding wa M_def by (rule o(4))
    have c2: "archive_member wa out ''README.txt'' = M"
      unfolding wa M_def out_def archive_member_def o(1) using r by simp
    from b1 c1 have c3: "file_at wb ?ar = M" by auto
    from b2 c2 have c4: "archive_member wb out ''README.txt'' = M"
      by (auto simp: archive_member_def)
    from c1 c2 c3 c4 show ?thesis by blast
  qed
  from a1 a2 b1 b2 c show ?thesis by blast
qed

theorem manifest_deterministic_witness:
  "(\<exists>w'. MyBaseController_default demo_backend ''/tmp/tmpbox''
            (parse_args (Some 100) (Some 80) (Some 50) None None None) demo_world = Inr w') \<and>
   (\<forall>w''. MyBaseController_default demo_backend ''/tmp/tmpbox''
            (parse_args (Some 100) (Some 80) (Some 50) None None None)
            (final_world (MyBaseController_default demo_backend ''/tmp/tmpbox''
               (parse_args (Some 100) (Some 80) (Some 50) None None None) demo_world))
          \<noteq> Inr w'') \<and>
   file_at (final_world (MyBaseController_default demo_backend ''/tmp/tmpbox''
              (parse_args (Some 100) (Some 80) (Some 50) None None None)
              (final_world (MyBaseController_default demo_backend ''/tmp/tmpbox''
                 (parse_args (Some 100) (Some 80) (Some 50) None None None) demo_world))))
     ''archive/README.txt'' = Some (Text (manifest_text demo_backend 100 80 50 2 2 5)) \<and>
   archive_member (final_world (MyBaseController_default demo_backend ''/tmp/tmpbox''
              (parse_args (Some 100) (Some 80) (Some 50) None None None)
              (final_world (MyBaseController_default demo_backend ''/tmp/tmpbox''
                 (parse_args (Some 100) (Some 80) (Some 50) None None None) demo_world))))
     (''archive/'' @ tar_gz_name demo_backend 100 80 50) ''README.txt''
     = Some (Text (manifest_text demo_backend 100 80 50 2 2 5))"
proof -
  let ?pa = "parse_args (Some 100) (Some 80) (Some 50) None None None"
  from demo_default obtain w' where
    r1: "MyBaseController_default demo_backend ''/tmp/tmpbox'' ?pa demo_world = Inr w'" ..
  have fmt: "\<forall>r. CHR ''/'' \<notin> set (float_str demo_backend r)"
    by (simp add: demo_no_slash)
  have t: "''/tmp/tmpbox'' \<noteq> [] \<and> hd ''/tmp/tmpbox'' = CHR ''/''" by simp
  have fw: "final_world (MyBaseController_default demo_backend ''/tmp/tmpbox'' ?pa demo_world) = w'"
    by (simp add: r1 final_world_def)
  have no: "MyBaseController_default demo_backend ''/tmp/tmpbox'' ?pa w' \<noteq> Inr w''" for w''
    by (rule rerun_does_not_return [OF r1 demo_args(1-3) demo_no_slash])
  from manifest_deterministic [OF demo_args(1-3) refl fmt t t, of demo_world] r1 no
  show ?thesis
    unfolding demo_args fw by blast
qed

text \<open>
  C10. \<open>create_tar_gz\<close> names every member by the basename of the file it adds: the member
  names are the basenames of the files, in order, and none contains a \<open>/\<close>. When the files
  are names without \<open>/\<close> joined to one directory, the member names are these names, whatever
  the directory is.
\<close>

theorem members_are_basenames:
  assumes "create_tar_gz be out fs w = Inr w'" and "out \<notin> set fs"
  shows "\<exists>members. file_at w' out = Some (TarGz members) \<and>
           map fst members = map os_path_basename fs \<and>
           (\<forall>n \<in> set (map fst members). CHR ''/'' \<notin> set n) \<and>
           (\<forall>d names. fs = map (os_path_join d) names \<and> (\<forall>n \<in> set names. CHR ''/'' \<notin> set n)
              \<longrightarrow> map fst members = names)"
proof -
  let ?ms = "map (\<lambda>f. (os_path_basename f, the (file_at w f))) fs"
  have 1: "file_at w' out = Some (TarGz ?ms)"
    by (simp add: create_tar_gz_Inr(1) [OF assms])
  have 2: "map fst ?ms = map os_path_basename fs"
    by (simp add: comp_def)
  have 3: "\<forall>n \<in> set (map fst ?ms). CHR ''/'' \<notin> set n"
    using basename_no_slash by (auto simp: comp_def)
  have 4: "map fst ?ms = names"
    if "fs = map (os_path_join d) names" and "\<forall>n \<in> set names. CHR ''/'' \<notin> set n"
    for d names
  proof -
    have h: "map os_path_basename (map (os_path_join d) names) = names"
      using that(2) by (induction names) (simp_all add: basename_join)
    have "map fst ?ms = map os_path_basename fs" by (rule 2)
    also have "\<dots> = map os_path_basename (map (os_path_join d) names)"
      by (simp only: that(1))
    also have "\<dots> = names" by (rule h)
    finally show ?thesis .
  qed
  from 1 2 3 4 show ?thesis by blast
qed

theorem members_are_basenames_witness:
  "\<exists>w' members.
     create_tar_gz demo_backend ''archive/box.tar.gz''
       [''/tmp/tmpbox/box_base.stl'', ''/tmp/tmpbox/README.txt'']
       \<lparr>file_at = [''/tmp/tmpbox/box_base.stl'' \<mapsto> Stl (box_base 100 80 50 2),
                   ''/tmp/tmpbox/README.txt'' \<mapsto> Text ''manifest''],
        dirs = {''archive'', ''/tmp/tmpbox'', ''/tmp''}, stdout = []\<rparr> = Inr w' \<and>
     file_at w' ''archive/box.tar.gz'' = Some (TarGz members) \<and>
     map fst members = [''box_base.stl'', ''README.txt'']"
proof -
  let ?w = "\<lparr>file_at = [''/tmp/tmpbox/box_base.stl'' \<mapsto> Stl (box_base 100 80 50 2),
                   ''/tmp/tmpbox/README.txt'' \<mapsto> Text ''manifest''],
        dirs = {''archive'', ''/tmp/tmpbox'', ''/tmp''}, stdout = []\<rparr>"
  let ?fs = "[''/tmp/tmpbox/box_base.stl'', ''/tmp/tmpbox/README.txt'']"
  have "\<exists>w'. create_tar_gz demo_backend ''archive/box.tar.gz'' ?fs ?w = Inr w'"
    by (rule create_tar_gz_ok [where d = "''archive''"])
       (simp_all add: os_path_dirname_def)
  then obtain w' where run: "create_tar_gz demo_backend ''archive/box.tar.gz'' ?fs ?w = Inr w'" ..
  have notin: "''archive/box.tar.gz'' \<notin> set ?fs" by simp
  from members_are_basenames [OF run notin] obtain members where
    m: "file_at w' ''archive/box.tar.gz'' = Some (TarGz members)"
       "map fst members = map os_path_basename ?fs"
    by blast
  have "map os_path_basename ?fs = [''box_base.stl'', ''README.txt'']"
    by (simp add: os_path_basename_def)
  with m run show ?thesis by auto
qed

end
